(* ===== verification/Prelude.thy ===== *)
theory Prelude
  imports Main "HOL-Library.Multiset" "HOL-Library.List_Lexorder" "HOL-Library.Char_ord"
    "HOL-Library.Product_Lexorder"
begin

text \<open>
  Shared vocabulary of the development. Python exceptions are values of the datatype
  \<open>py_error\<close>, a computation that may raise is a value of \<open>'a result\<close>
  (\<open>Inl\<close> the exception, \<open>Inr\<close> the value), \<open>sbind\<close> sequences two such
  computations the way Python statements are sequenced, \<open>catch\<close> is a
  \<^verbatim>\<open>try: ... except E: return v\<close> block, and \<open>map_result\<close> is a \<^verbatim>\<open>for\<close>
  loop that appends one value per element and stops at the first exception. The
  collection \<open>result_simps\<close> gathers the rewrite rules of these combinators.
\<close>

named_theorems result_simps "rewrite rules for the exception combinators"

datatype py_error =
    AttributeError   \<comment> \<open>attribute access on \<^verbatim>\<open>None\<close>, e.g. \<^verbatim>\<open>None.find\<close>, \<^verbatim>\<open>None.text\<close>\<close>
  | TypeError        \<comment> \<open>\<^verbatim>\<open>None['href']\<close>: subscripting \<^verbatim>\<open>None\<close>\<close>
  | KeyError         \<comment> \<open>\<^verbatim>\<open>tag['href']\<close> on a tag without that attribute\<close>
  | IndexError       \<comment> \<open>\<^verbatim>\<open>[][0]\<close>\<close>
  | ValueError       \<comment> \<open>\<^verbatim>\<open>s.split('')\<close>: empty separator\<close>
  | ClientError      \<comment> \<open>transport failure raised by the HTTP client\<close>
  | EmptyDataError   \<comment> \<open>\<^verbatim>\<open>pandas.read_csv\<close> on a file without any column\<close>
  | ParserError      \<comment> \<open>\<^verbatim>\<open>pandas.read_csv\<close> on a malformed file\<close>

type_synonym 'a result = "py_error + 'a"

definition sbind :: "'a result \<Rightarrow> ('a \<Rightarrow> 'b result) \<Rightarrow> 'b result" where
  "sbind m f = (case m of Inl e \<Rightarrow> Inl e | Inr a \<Rightarrow> f a)"

definition catch :: "py_error \<Rightarrow> 'a \<Rightarrow> 'a result \<Rightarrow> 'a result" where
  "catch e v m = (case m of Inl e' \<Rightarrow> (if e' = e then Inr v else Inl e') | Inr a \<Rightarrow> Inr a)"

fun map_result :: "('a \<Rightarrow> 'b result) \<Rightarrow> 'a list \<Rightarrow> 'b list result" where
  "map_result f [] = Inr []"
| "map_result f (x # xs) = sbind (f x) (\<lambda>y. sbind (map_result f xs) (\<lambda>ys. Inr (y # ys)))"

text \<open>Python's \<^verbatim>\<open>xs[0]\<close>: \<open>IndexError\<close> on the empty list, never \<open>hd []\<close>.\<close>

definition py_first :: "'a list \<Rightarrow> 'a result" where
  "py_first xs = (case xs of [] \<Rightarrow> Inl IndexError | x # _ \<Rightarrow> Inr x)"

subsection \<open>Rewrite rules of the combinators\<close>

lemma sbind_Inl [simp, result_simps]: "sbind (Inl e) f = Inl e"
  by (simp add: sbind_def)

lemma sbind_Inr [simp, result_simps]: "sbind (Inr a) f = f a"
  by (simp add: sbind_def)

lemma sbind_eq_Inr [result_simps]: "sbind m f = Inr b \<longleftrightarrow> (\<exists>a. m = Inr a \<and> f a = Inr b)"
  by (cases m) auto

lemma sbind_eq_Inl [result_simps]:
  "sbind m f = Inl e \<longleftrightarrow> m = Inl e \<or> (\<exists>a. m = Inr a \<and> f a = Inl e)"
  by (cases m) auto

lemma sbind_assoc [result_simps]: "sbind (sbind m f) g = sbind m (\<lambda>x. sbind (f x) g)"
  by (cases m) simp_all

lemma catch_Inr [simp, result_simps]: "catch e v (Inr a) = Inr a"
  by (simp add: catch_def)

lemma catch_Inl [simp, result_simps]: "catch e v (Inl e') = (if e' = e then Inr v else Inl e')"
  by (simp add: catch_def)

lemma py_first_simps [simp, result_simps]: "py_first [] = Inl IndexError" "py_first (x # xs) = Inr x"
  by (simp_all add: py_first_def)

subsection \<open>The loop combinator\<close>

text \<open>A loop whose body never raises computes the plain \<open>map\<close>.\<close>

lemma map_result_map [result_simps]:
  "(\<And>x. x \<in> set xs \<Longrightarrow> f x = Inr (g x)) \<Longrightarrow> map_result f xs = Inr (map g xs)"
  by (induction xs) auto

lemma map_result_Inr_length:
  "map_result f xs = Inr ys \<Longrightarrow> length ys = length xs"
  by (induction xs arbitrary: ys) (auto simp: sbind_eq_Inr)

lemma map_result_Inr_nth:
  "map_result f xs = Inr ys \<Longrightarrow> i < length xs \<Longrightarrow> f (xs ! i) = Inr (ys ! i)"
proof (induction xs arbitrary: ys i)
  case Nil
  then show ?case by simp
next
  case (Cons x xs)
  then obtain y ys' where "f x = Inr y" "map_result f xs = Inr ys'" "ys = y # ys'"
    by (auto simp: sbind_eq_Inr)
  with Cons show ?case by (cases i) auto
qed

text \<open>The loop raises exactly when one of its bodies raises; the exception is the first one.\<close>

lemma map_result_Inl:
  "map_result f xs = Inl e \<longleftrightarrow>
     (\<exists>i < length xs. f (xs ! i) = Inl e \<and> (\<forall>j < i. \<exists>y. f (xs ! j) = Inr y))"
proof (induction xs)
  case Nil
  then show ?case by simp
next
  case (Cons x xs)
  show ?case
  proof (cases "f x")
    case (Inl e')
    then show ?thesis by (auto simp: nth_Cons')
  next
    case (Inr y)
    have "(\<exists>i < length (x # xs). f ((x # xs) ! i) = Inl e \<and> (\<forall>j < i. \<exists>y. f ((x # xs) ! j) = Inr y))
        \<longleftrightarrow> (\<exists>i < length xs. f (xs ! i) = Inl e \<and> (\<forall>j < i. \<exists>y. f (xs ! j) = Inr y))"
      (is "?L \<longleftrightarrow> ?R")
    proof
      assume ?L
      then obtain i where i: "i < length (x # xs)" "f ((x # xs) ! i) = Inl e"
        "\<forall>j < i. \<exists>y. f ((x # xs) ! j) = Inr y" by blast
      show ?R
      proof (cases i)
        case 0
        with i Inr show ?thesis by simp
      next
        case (Suc k)
        have "\<forall>j < k. \<exists>y. f (xs ! j) = Inr y"
        proof (intro allI impI)
          fix j assume "j < k"
          with i(3) Suc have "\<exists>y. f ((x # xs) ! Suc j) = Inr y" by blast
          then show "\<exists>y. f (xs ! j) = Inr y" by simp
        qed
        with i Suc show ?thesis by auto
      qed
    next
      assume ?R
      then obtain i where i: "i < length xs" "f (xs ! i) = Inl e" "\<forall>j < i. \<exists>y. f (xs ! j) = Inr y"
        by blast
      have "\<forall>j < Suc i. \<exists>y. f ((x # xs) ! j) = Inr y"
      proof (intro allI impI)
        fix j assume "j < Suc i"
        with i(3) Inr show "\<exists>y. f ((x # xs) ! j) = Inr y" by (cases j) auto
      qed
      with i show ?L by (intro exI [of _ "Suc i"]) simp
    qed
    with Inr Cons.IH show ?thesis by (cases "map_result f xs") auto
  qed
qed

lemma map_result_total:
  "(\<And>x. x \<in> set xs \<Longrightarrow> \<exists>y. f x = Inr y) \<Longrightarrow> \<exists>ys. map_result f xs = Inr ys"
proof (induction xs)
  case Nil
  then show ?case by simp
next
  case (Cons x xs)
  then obtain y ys where "f x = Inr y" "map_result f xs = Inr ys" by force
  then show ?case by simp
qed

lemma map_result_append:
  "map_result f (xs @ ys) =
     sbind (map_result f xs) (\<lambda>as. sbind (map_result f ys) (\<lambda>bs. Inr (as @ bs)))"
  by (induction xs) (auto simp: sbind_def split: sum.splits)

text \<open>A loop whose body computes a value and wraps a total function of it is the loop over
  the computation followed by a \<open>map\<close>: the first exception of the computation is the
  loop's exception.\<close>

lemma map_result_sbind_Inr:
  "map_result (\<lambda>x. sbind (f x) (\<lambda>y. Inr (h y))) xs = sbind (map_result f xs) (\<lambda>ys. Inr (map h ys))"
  by (induction xs) (auto simp: sbind_def split: sum.split)

text \<open>A loop whose every body either raises the same exception, exactly on the elements that
  satisfy \<open>P\<close>, or returns \<open>g x\<close>.\<close>

lemma map_result_uniform:
  "(\<And>x. x \<in> set xs \<Longrightarrow> f x = (if P x then Inl e else Inr (g x))) \<Longrightarrow>
   map_result f xs = (if list_ex P xs then Inl e else Inr (map g xs))"
  by (induction xs) auto

lemma find_in_set: "find P xs = Some x \<Longrightarrow> x \<in> set xs \<and> P x"
  by (induction xs) (auto split: if_splits)

lemma find_filter_hd: "find P xs = (case filter P xs of [] \<Rightarrow> None | x # _ \<Rightarrow> Some x)"
  by (induction xs) auto

lemma find_disj_Some:
  "find (\<lambda>x. A x \<or> B x) xs = Some y \<Longrightarrow> \<not> A y \<Longrightarrow> find B xs = Some y"
  by (induction xs) (auto split: if_splits)

lemma find_disj_None: "find (\<lambda>x. A x \<or> B x) xs = None \<Longrightarrow> find B xs = None"
  by (induction xs) (auto split: if_splits)



text \<open>A loop returns exactly when no body raises; its value is then the list of the bodies' values.\<close>

lemma map_result_Inr_iff:
  "map_result f xs = Inr ys \<longleftrightarrow> list_all (\<lambda>x. \<not> isl (f x)) xs \<and> ys = map (\<lambda>x. projr (f x)) xs"
proof (induction xs arbitrary: ys)
  case Nil
  then show ?case by auto
next
  case (Cons x xs)
  then show ?case by (cases "f x") (auto simp: sbind_eq_Inr)
qed

text \<open>Running the loop over a permutation of its input returns a permutation of its output.\<close>

lemma map_result_perm:
  assumes "mset xs' = mset xs" and "map_result f xs = Inr ys"
  shows "\<exists>ys'. map_result f xs' = Inr ys' \<and> mset ys' = mset ys"
proof -
  have "set xs' = set xs" using assms(1) by (metis set_mset_mset)
  moreover have "mset (map (\<lambda>x. projr (f x)) xs') = mset (map (\<lambda>x. projr (f x)) xs)"
    using assms(1) by simp
  ultimately show ?thesis using assms(2) by (auto simp: map_result_Inr_iff list_all_iff)
qed

end
