(* ===== verification/PyStr.thy ===== *)
theory PyStr
  imports Prelude
begin
text \<open>
  The Python string operations the program calls, on \<open>string\<close> (a list of \<open>char\<close>; a
  \<open>char\<close> stands for a Unicode code point below 256, so that \<open>str.isspace\<close> and the
  regular expression class \<^verbatim>\<open>[0-9]\<close> are decided by the code point):
  \<^item> \<open>py_split sep s\<close> is \<^verbatim>\<open>s.split(sep)\<close> (\<open>ValueError\<close> on an empty separator),
    computed by \<open>split_on\<close>, which cuts at the leftmost non-overlapping occurrences;
  \<^item> \<open>py_split_ws s\<close> is \<^verbatim>\<open>s.split()\<close>: runs of whitespace separate, leading and
    trailing whitespace is dropped;
  \<^item> \<open>py_join sep xs\<close> is \<^verbatim>\<open>sep.join(xs)\<close>, \<open>py_replace\<close> is \<^verbatim>\<open>str.replace\<close>,
    \<open>startswith\<close> is \<^verbatim>\<open>str.startswith\<close>, \<open>py_slice\<close> is \<^verbatim>\<open>s[i:j]\<close> for
    non-negative indices, \<open>py_range_step\<close> is \<^verbatim>\<open>range(start, stop, step)\<close> for a
    positive step and \<open>py_str_nat\<close> is \<^verbatim>\<open>str(n)\<close> for \<open>n \<ge> 0\<close>.
  The lemmas are the identities of Python's string library the proofs need: \<^verbatim>\<open>sep.join(s.split(sep)) == s\<close>,
  the converse for pieces free of a one-character separator, \<^verbatim>\<open>s.replace(a, b) == b.join(s.split(a))\<close>,
  and \<^verbatim>\<open>int(str(n)) == n\<close>.
\<close>

subsection \<open>Definitions\<close>
definition is_py_space :: "char \<Rightarrow> bool" where
  \<comment> \<open>\<^verbatim>\<open>str.isspace\<close> below code point 256: \<^verbatim>\<open>\t \n \v \f \r\<close>, the separators \<^verbatim>\<open>\x1c\<close>--\<^verbatim>\<open>\x1f\<close>, space, NEL, NBSP\<close>
  "is_py_space c \<longleftrightarrow> (of_char c :: nat) \<in> set [9, 10, 11, 12, 13, 28, 29, 30, 31, 32, 133, 160]"

definition is_ascii_digit :: "char \<Rightarrow> bool" where
  \<comment> \<open>the regular expression class \<^verbatim>\<open>[0-9]\<close>\<close>
  "is_ascii_digit c \<longleftrightarrow> 48 \<le> (of_char c :: nat) \<and> (of_char c :: nat) \<le> 57"

definition startswith :: "string \<Rightarrow> string \<Rightarrow> bool" where
  "startswith s p \<longleftrightarrow> take (length p) s = p"

definition py_slice :: "'a list \<Rightarrow> nat \<Rightarrow> nat \<Rightarrow> 'a list" where
  "py_slice xs i j = take (j - i) (drop i xs)"

function py_range_step :: "nat \<Rightarrow> nat \<Rightarrow> nat \<Rightarrow> nat list" where
  "py_range_step start stop step =
     (if 0 < step \<and> start < stop then start # py_range_step (start + step) stop step else [])"
  by pat_completeness auto

termination
  by (relation "measure (\<lambda>(start, stop, step). stop - start)") auto

declare py_range_step.simps [simp del]

fun py_join :: "string \<Rightarrow> string list \<Rightarrow> string" where
  "py_join sep [] = []"
| "py_join sep [x] = x"
| "py_join sep (x # y # zs) = x @ sep @ py_join sep (y # zs)"

function split_on :: "string \<Rightarrow> string \<Rightarrow> string \<Rightarrow> string list" where
  "split_on sep cur [] = [rev cur]"
| "split_on sep cur (c # cs) =
     (if sep \<noteq> [] \<and> startswith (c # cs) sep
      then rev cur # split_on sep [] (drop (length sep) (c # cs))
      else split_on sep (c # cur) cs)"
  by pat_completeness auto

termination
  by (relation "measure (\<lambda>(sep, cur, s). length s)") auto

definition py_split :: "string \<Rightarrow> string \<Rightarrow> string list result" where
  "py_split s sep = (if sep = [] then Inl ValueError else Inr (split_on sep [] s))"

fun split_ws :: "string \<Rightarrow> string \<Rightarrow> string list" where
  "split_ws cur [] = (if cur = [] then [] else [rev cur])"
| "split_ws cur (c # cs) =
     (if is_py_space c
      then (if cur = [] then split_ws [] cs else rev cur # split_ws [] cs)
      else split_ws (c # cur) cs)"

definition py_split_ws :: "string \<Rightarrow> string list" where
  "py_split_ws s = split_ws [] s"

function replace_on :: "string \<Rightarrow> string \<Rightarrow> string \<Rightarrow> string" where
  "replace_on old new [] = []"
| "replace_on old new (c # cs) =
     (if old \<noteq> [] \<and> startswith (c # cs) old
      then new @ replace_on old new (drop (length old) (c # cs))
      else c # replace_on old new cs)"
  by pat_completeness auto

termination
  by (relation "measure (\<lambda>(old, new, s). length s)") auto

definition py_replace :: "string \<Rightarrow> string \<Rightarrow> string \<Rightarrow> string" where
  "py_replace s old new =
     (if old = [] then new @ concat (map (\<lambda>c. c # new) s) else replace_on old new s)"

definition digit_char :: "nat \<Rightarrow> char" where
  "digit_char d = char_of (48 + d)"

fun py_str_nat :: "nat \<Rightarrow> string" where
  "py_str_nat n = (if n < 10 then [digit_char n] else py_str_nat (n div 10) @ [digit_char (n mod 10)])"

declare py_str_nat.simps [simp del]

definition digits_value :: "string \<Rightarrow> nat" where
  "digits_value s = foldl (\<lambda>a c. 10 * a + (of_char c - 48)) 0 s"

subsection \<open>Character classes\<close>

lemma space_char_is_py_space [simp]: "is_py_space (CHR '' '')"
  by (simp add: is_py_space_def)

lemma space_not_digit [simp]: "\<not> is_ascii_digit (CHR '' '')"
  by (simp add: is_ascii_digit_def)

lemma digit_not_py_space: "is_ascii_digit c \<Longrightarrow> \<not> is_py_space c"
  by (auto simp: is_ascii_digit_def is_py_space_def)

subsection \<open>\<^verbatim>\<open>startswith\<close>, slices, \<^verbatim>\<open>range\<close>\<close>

lemma startswith_append [simp]: "startswith (p @ s) p"
  by (simp add: startswith_def)

lemma startswith_Cons_single [simp]: "startswith (c # cs) [d] \<longleftrightarrow> c = d"
  by (simp add: startswith_def)

lemma startswith_drop: "startswith s p \<Longrightarrow> p @ drop (length p) s = s"
  by (metis append_take_drop_id startswith_def)

lemma py_range_0_10_2: "py_range_step 0 10 2 = [0, 2, 4, 6, 8]"
  by code_simp

subsection \<open>\<^verbatim>\<open>sep.join\<close>\<close>

lemma py_join_Cons: "ys \<noteq> [] \<Longrightarrow> py_join sep (x # ys) = x @ sep @ py_join sep ys"
  by (cases ys) auto

lemma length_py_join:
  "length (py_join sep xs) = sum_list (map length xs) + (length xs - 1) * length sep"
  by (induction sep xs rule: py_join.induct) auto

lemma set_py_join: "set (py_join sep xs) \<subseteq> \<Union> (set ` set xs) \<union> set sep"
  by (induction sep xs rule: py_join.induct) auto

subsection \<open>\<^verbatim>\<open>s.split(sep)\<close>\<close>

lemma split_on_not_Nil [simp]: "split_on sep cur s \<noteq> []"
  by (induction sep cur s rule: split_on.induct) auto

lemma py_split_nonempty [simp]: "sep \<noteq> [] \<Longrightarrow> py_split s sep = Inr (split_on sep [] s)"
  by (simp add: py_split_def)

text \<open>\<^verbatim>\<open>sep.join(s.split(sep)) == s\<close>, with the pending piece \<open>cur\<close> generalised.\<close>

lemma py_join_split_on:
  "sep \<noteq> [] \<Longrightarrow> py_join sep (split_on sep cur s) = rev cur @ s"

proof (induction sep cur s rule: split_on.induct)
  case (1 sep cur)
  then show ?case by simp

next
  case (2 sep cur c cs)
  show ?case
  proof (cases "startswith (c # cs) sep")
    case True
    with 2 have "py_join sep (split_on sep [] (drop (length sep) (c # cs))) = drop (length sep) (c # cs)"
      by simp
    with True 2(3) show ?thesis by (simp add: py_join_Cons startswith_drop)
  next
    case False
    with 2 show ?thesis by simp
  qed

qed

text \<open>Cutting at a one-character separator: the pieces are the maximal runs without it.\<close>

lemma split_on_single_no_sep:
  "c \<notin> set x \<Longrightarrow> split_on [c] cur x = [rev cur @ x]"
  by (induction x arbitrary: cur) auto

lemma split_on_single_sep:
  "c \<notin> set x \<Longrightarrow> split_on [c] cur (x @ c # r) = (rev cur @ x) # split_on [c] [] r"
  by (induction x arbitrary: cur) auto

lemma split_on_single_py_join:
  "xs \<noteq> [] \<Longrightarrow> \<forall>x \<in> set xs. c \<notin> set x \<Longrightarrow> split_on [c] [] (py_join [c] xs) = xs"

proof (induction "[c]" xs rule: py_join.induct)
  case 1
  then show ?case by simp

next
  case (2 x)
  then show ?case by (simp add: split_on_single_no_sep)

next
  case (3 x y zs)
  then show ?case by (simp add: split_on_single_sep)

qed

text \<open>The first piece is what precedes the first occurrence of the separator.\<close>

lemma split_on_hd_no_sep:
  "\<forall>i \<le> length s. \<not> startswith (drop i s) sep \<Longrightarrow> sep \<noteq> [] \<Longrightarrow> split_on sep cur s = [rev cur @ s]"

proof (induction sep cur s rule: split_on.induct)
  case (1 sep cur)
  then show ?case by simp

next
  case (2 sep cur c cs)
  have "\<not> startswith (c # cs) sep" using "2.prems"(1) by (metis drop0 le0)
  moreover have "\<forall>i \<le> length cs. \<not> startswith (drop i cs) sep"
    using "2.prems"(1) by (metis Suc_le_mono drop_Suc_Cons length_Cons)
  ultimately show ?case using 2 by simp

qed

lemma split_on_prefix_sep:
  "sep \<noteq> [] \<Longrightarrow> split_on sep cur (sep @ r) = rev cur # split_on sep [] r"
  by (cases sep) (auto simp: startswith_def)

text \<open>The first piece of a cut at one character is the prefix before that character.\<close>

lemma hd_split_on_single: "hd (split_on [c] cur s) = rev cur @ takeWhile (\<lambda>x. x \<noteq> c) s"
  by (induction s arbitrary: cur) auto

lemma py_first_split_on: "py_first (split_on sep cur s) = Inr (hd (split_on sep cur s))"
  by (cases "split_on sep cur s") auto

subsection \<open>\<^verbatim>\<open>s.split()\<close>\<close>

lemma split_ws_Nil_iff:
  "split_ws cur s = [] \<longleftrightarrow> cur = [] \<and> (\<forall>c \<in> set s. is_py_space c)"
  by (induction cur s rule: split_ws.induct) auto

lemma py_split_ws_Nil_iff: "py_split_ws s = [] \<longleftrightarrow> (\<forall>c \<in> set s. is_py_space c)"
  by (simp add: py_split_ws_def split_ws_Nil_iff)

lemma split_ws_words:
  "list_all (\<lambda>c. \<not> is_py_space c) cur \<Longrightarrow>
   list_all (\<lambda>w. w \<noteq> [] \<and> list_all (\<lambda>c. \<not> is_py_space c) w) (split_ws cur s)"
  by (induction cur s rule: split_ws.induct) auto

lemma concat_split_ws: "concat (split_ws cur s) = rev cur @ filter (\<lambda>c. \<not> is_py_space c) s"
  by (induction cur s rule: split_ws.induct) auto

lemma py_split_ws_words:
  "w \<in> set (py_split_ws s) \<Longrightarrow> w \<noteq> [] \<and> (\<forall>c \<in> set w. \<not> is_py_space c)"
  using split_ws_words [of "[]" s] by (auto simp: py_split_ws_def list_all_iff)

lemma split_ws_no_space: "\<forall>c \<in> set s. \<not> is_py_space c \<Longrightarrow> split_ws cur s = (if rev cur @ s = [] then [] else [rev cur @ s])"
  by (induction s arbitrary: cur) auto

lemma py_split_ws_append_space:
  "w \<noteq> [] \<Longrightarrow> \<forall>c \<in> set w. \<not> is_py_space c \<Longrightarrow> is_py_space c \<Longrightarrow>
   py_split_ws (w @ c # r) = w # py_split_ws r"

proof -
  have "\<forall>d \<in> set w. \<not> is_py_space d \<Longrightarrow> is_py_space c \<Longrightarrow>
        split_ws cur (w @ c # r) = (if rev cur @ w = [] then split_ws [] r else (rev cur @ w) # split_ws [] r)"
    for cur by (induction w arbitrary: cur) auto
  then show "w \<noteq> [] \<Longrightarrow> \<forall>c \<in> set w. \<not> is_py_space c \<Longrightarrow> is_py_space c \<Longrightarrow>
     py_split_ws (w @ c # r) = w # py_split_ws r"
    by (simp add: py_split_ws_def)

qed

subsection \<open>\<^verbatim>\<open>s.replace(old, new)\<close>\<close>

text \<open>The scan of \<open>replace_on\<close> agrees with \<^verbatim>\<open>new.join(s.split(old))\<close>.\<close>

lemma replace_on_split_on:
  "old \<noteq> [] \<Longrightarrow> rev cur @ replace_on old new s = py_join new (split_on old cur s)"

proof (induction old cur s rule: split_on.induct)
  case (1 sep cur)
  then show ?case by simp

next
  case (2 sep cur c cs)
  then show ?case by (auto simp: py_join_Cons)

qed

lemma py_replace_py_join:
  "old \<noteq> [] \<Longrightarrow> py_replace s old new = py_join new (split_on old [] s)"
  using replace_on_split_on [of old "[]" new s] by (simp add: py_replace_def)

lemma replace_on_no_occurrence:
  "\<forall>i \<le> length s. \<not> startswith (drop i s) old \<Longrightarrow> replace_on old new s = s"

proof (induction old new s rule: replace_on.induct)
  case (1 old new)
  then show ?case by simp

next
  case (2 old new c cs)
  have "\<not> startswith (c # cs) old" using "2.prems" by (metis drop0 le0)
  moreover have "\<forall>i \<le> length cs. \<not> startswith (drop i cs) old"
    using "2.prems" by (metis Suc_le_mono drop_Suc_Cons length_Cons)
  ultimately show ?case using 2 by simp

qed

subsection \<open>\<^verbatim>\<open>str(n)\<close> and \<^verbatim>\<open>int(s)\<close>\<close>

lemma digits_value_snoc: "digits_value (s @ [c]) = 10 * digits_value s + (of_char c - 48)"
  by (simp add: digits_value_def)

lemma of_char_digit_char: "d < 10 \<Longrightarrow> (of_char (digit_char d) :: nat) = 48 + d"
  by (simp add: digit_char_def)

lemma digits_value_py_str_nat: "digits_value (py_str_nat n) = n"

proof (induction n rule: py_str_nat.induct)
  case (1 n)
  show ?case
  proof (cases "n < 10")
    case True
    then show ?thesis
      by (simp add: py_str_nat.simps [of n] digits_value_def of_char_digit_char)
  next
    case False
    then have "digits_value (py_str_nat (n div 10)) = n div 10" by (rule "1.IH")
    moreover have "py_str_nat n = py_str_nat (n div 10) @ [digit_char (n mod 10)]"
      using False by (simp add: py_str_nat.simps [of n])
    ultimately show ?thesis
      by (simp add: digits_value_snoc of_char_digit_char)
  qed

qed

lemma py_str_nat_inj: "py_str_nat m = py_str_nat n \<longleftrightarrow> m = n"

proof
  assume "py_str_nat m = py_str_nat n"
  then have "digits_value (py_str_nat m) = digits_value (py_str_nat n)" by (rule arg_cong)
  then show "m = n" by (simp only: digits_value_py_str_nat)

qed simp

end
