(* ===== verification/Phone.thy ===== *)
theory Phone
  imports PyStr
begin

text \<open>
  The phone formatter \<^verbatim>\<open>format_phone_number\<close> of \<^verbatim>\<open>src/asyncNotary.py\<close>: keep the
  ASCII digits of the input (\<^verbatim>\<open>re.sub("[^0-9]", "", s)\<close>) and join the five slices
  \<^verbatim>\<open>digits[i:i+2]\<close>, \<^verbatim>\<open>i\<close> in \<^verbatim>\<open>range(0, 10, 2)\<close>, with single spaces. The
  lemmas give the shape of the output for every input: five space-separated fields, the
  \<open>k\<close>-th holding digits \<open>2k\<close> and \<open>2k+1\<close> when they exist; its digits are the first
  ten digits of the input; its length is \<open>min d 10 + 4\<close> for \<open>d\<close> digits; and the
  formatter is idempotent, which the deduplication key relies on.
\<close>

definition phone_digits :: "string \<Rightarrow> string" where
  "phone_digits s = filter is_ascii_digit s"

definition format_phone_number :: "string \<Rightarrow> string" where
  "format_phone_number phone_number =
     (let digits = phone_digits phone_number
      in py_join '' '' (map (\<lambda>i. py_slice digits i (i + 2)) (py_range_step 0 10 2)))"

subsection \<open>The five fields\<close>

definition phone_fields :: "string \<Rightarrow> string list" where
  "phone_fields d = map (\<lambda>i. py_slice d i (i + 2)) [0, 2, 4, 6, 8]"

lemma format_phone_number_fields:
  "format_phone_number s = py_join '' '' (phone_fields (phone_digits s))"
  by (simp add: format_phone_number_def phone_fields_def py_range_0_10_2 Let_def)

lemma phone_fields_take: "phone_fields (take 10 d) = phone_fields d"
  by (simp add: phone_fields_def py_slice_def take_drop min_def)

lemma take_two_more: "take 2 (drop i d) @ take n (drop (i + 2) d) = take (n + 2) (drop i d)"
  using take_add [of 2 n "drop i d"] by (simp add: add.commute)

lemma concat_phone_fields: "concat (phone_fields d) = take 10 d"
proof -
  have "take 2 (drop 8 d) = take 2 (drop 8 d) @ take 0 (drop 10 d)" by simp
  also have "\<dots> = take 2 (drop 8 d)" by simp
  finally have "take 2 (drop 6 d) @ take 2 (drop 8 d) = take 4 (drop 6 d)"
    using take_two_more [of 6 d 2] by simp
  then have "take 2 (drop 4 d) @ take 2 (drop 6 d) @ take 2 (drop 8 d) = take 6 (drop 4 d)"
    using take_two_more [of 4 d 4] by simp
  then have "take 2 (drop 2 d) @ take 2 (drop 4 d) @ take 2 (drop 6 d) @ take 2 (drop 8 d)
      = take 8 (drop 2 d)"
    using take_two_more [of 2 d 6] by simp
  then have "take 2 d @ take 2 (drop 2 d) @ take 2 (drop 4 d) @ take 2 (drop 6 d) @ take 2 (drop 8 d)
      = take 10 d"
    using take_add [of 2 8 d] by simp
  then show ?thesis by (simp add: phone_fields_def py_slice_def)
qed

lemma phone_fields_digits:
  "\<forall>c \<in> set d. is_ascii_digit c \<Longrightarrow> x \<in> set (phone_fields d) \<Longrightarrow> \<forall>c \<in> set x. is_ascii_digit c"
  by (auto simp: phone_fields_def py_slice_def dest: in_set_takeD in_set_dropD)

lemma phone_digits_all_digits: "\<forall>c \<in> set (phone_digits s). is_ascii_digit c"
  by (simp add: phone_digits_def)

lemma length_phone_fields: "map length (phone_fields d) = map (\<lambda>i. min 2 (length d - i)) [0, 2, 4, 6, 8]"
  by (simp add: phone_fields_def py_slice_def min.commute)

lemma filter_py_join_space:
  "filter is_ascii_digit (py_join '' '' xs) = concat (map (filter is_ascii_digit) xs)"
  by (induction "'' ''" xs rule: py_join.induct) auto

lemma space_notin_phone_fields: "x \<in> set (phone_fields (phone_digits s)) \<Longrightarrow> CHR '' '' \<notin> set x"
  using phone_fields_digits [OF phone_digits_all_digits] space_not_digit by blast

lemma phone_digits_eq: "phone_digits = filter is_ascii_digit"
  by (simp add: fun_eq_iff phone_digits_def)

lemma phone_digits_py_join_fields:
  "phone_digits (py_join '' '' (phone_fields d)) = concat (map phone_digits (phone_fields d))"
  by (simp add: phone_digits_eq filter_py_join_space)

lemma phone_digits_idem: "phone_digits (phone_digits s) = phone_digits s"
  by (simp add: phone_digits_def)

lemma phone_digits_take: "phone_digits (take n (phone_digits s)) = take n (phone_digits s)"
  by (auto simp: phone_digits_def filter_id_conv dest: in_set_takeD)

subsection \<open>Properties of the formatter\<close>

text \<open>(C7) Whatever the input, the formatted number splits at single spaces into
  exactly five fields, the slices \<^verbatim>\<open>digits[0:2]\<close>, ..., \<^verbatim>\<open>digits[8:10]\<close> of its digit string;
  a field is shorter than two digits, or empty, when the input has fewer than ten digits.\<close>

theorem format_phone_number_split:
  "py_split (format_phone_number s) '' '' = Inr (phone_fields (phone_digits s))"
proof -
  have "phone_fields (phone_digits s) \<noteq> []" by (simp add: phone_fields_def)
  with space_notin_phone_fields [of _ s] show ?thesis
    by (simp add: format_phone_number_fields split_on_single_py_join)
qed

lemma phone_digits_format:
  "phone_digits (format_phone_number s) = take 10 (phone_digits s)"
proof -
  have "phone_digits (format_phone_number s) = concat (map phone_digits (phone_fields (phone_digits s)))"
    by (simp add: format_phone_number_fields phone_digits_py_join_fields)
  also have "\<dots> = concat (phone_fields (phone_digits s))"
    using phone_fields_digits [OF phone_digits_all_digits, of _ s]
    by (intro arg_cong [where f = concat] map_idI) (simp add: phone_digits_def filter_id_conv)
  finally show ?thesis by (simp add: concat_phone_fields)
qed

text \<open>(C25) The digits of the output are the first ten digits of the input, in
  order: digits beyond the tenth are dropped silently, none is invented.\<close>

theorem format_phone_number_digits:
  "phone_digits (format_phone_number s) = take 10 (phone_digits s)"
  by (rule phone_digits_format)

text \<open>(C26) The output always has four separating spaces: its length is the number
  of digits kept, at most ten, plus four. In particular an input with \<open>d < 10\<close> digits gives
  \<open>d + 4\<close> characters, with trailing spaces, and an input with no digit gives four spaces.\<close>

theorem format_phone_number_length:
  "length (format_phone_number s) = min (length (phone_digits s)) 10 + 4"
proof -
  have "sum_list (map length (phone_fields (phone_digits s))) = min (length (phone_digits s)) 10"
    using arg_cong [OF concat_phone_fields [of "phone_digits s"], of length]
    by (simp add: length_concat min.commute)
  then show ?thesis
    by (simp add: format_phone_number_fields length_py_join phone_fields_def)
qed

text \<open>(C27) The output consists of ASCII digits and spaces only.\<close>

theorem format_phone_number_charset:
  "set (format_phone_number s) \<subseteq> Collect is_ascii_digit \<union> {CHR '' ''}"
proof
  fix c assume "c \<in> set (format_phone_number s)"
  then have "c \<in> \<Union> (set ` set (phone_fields (phone_digits s))) \<union> set '' ''"
    using set_py_join [of "'' ''" "phone_fields (phone_digits s)"]
    by (auto simp: format_phone_number_fields)
  then show "c \<in> Collect is_ascii_digit \<union> {CHR '' ''}"
    using phone_fields_digits [OF phone_digits_all_digits, of _ s] by auto
qed

text \<open>(C28) Formatting is idempotent: the deduplication key applies the formatter
  again to a phone number the extractor has already formatted, and gets it back unchanged.\<close>

theorem format_phone_number_idem:
  "format_phone_number (format_phone_number s) = format_phone_number s"
proof -
  have "format_phone_number (format_phone_number s)
      = py_join '' '' (phone_fields (phone_digits (format_phone_number s)))"
    by (rule format_phone_number_fields)
  also have "\<dots> = py_join '' '' (phone_fields (take 10 (phone_digits s)))"
    by (simp only: phone_digits_format)
  also have "\<dots> = format_phone_number s"
    by (simp add: phone_fields_take format_phone_number_fields)
  finally show ?thesis .
qed

text \<open>The two examples of the specification, as instances of the theorems above: a ten-digit
  input with separators and a suffix gives five pairs; the seven-digit input \<^verbatim>\<open>0102030\<close>
  gives \<^verbatim>\<open>"01 02 03 0 "\<close>, with the partial pair and a trailing space, not the
  \<^verbatim>\<open>"01 02 03"\<close> that the specification announces.\<close>

lemma format_phone_number_examples:
  "format_phone_number ''01-23-45-67-89 ext'' = ''01 23 45 67 89'' \<and>
   format_phone_number ''0102030'' = ''01 02 03 0 ''"
  by (simp add: format_phone_number_fields phone_fields_def py_slice_def phone_digits_def
      is_ascii_digit_def)

end
