(* ===== verification/Notary.thy ===== *)
theory Notary
  imports Phone
begin

text \<open>
  The record of one listing. The class \<^verbatim>\<open>Notary\<close> is imported from a module
  \<^verbatim>\<open>Notary.py\<close> that the repository does not ship; following the specification (a
  record of five text fields, immutable once built, read through its attributes and its
  getters \<^verbatim>\<open>get_name\<close> ... \<^verbatim>\<open>get_address\<close>) it is a HOL record whose fields are
  the attributes \<^verbatim>\<open>name\<close>, \<^verbatim>\<open>phone\<close>, \<^verbatim>\<open>mail\<close>, \<^verbatim>\<open>website\<close>, \<^verbatim>\<open>address\<close>, and
  \<open>make_notary\<close> is the constructor \<^verbatim>\<open>Notary(name, phone, mail, website, address)\<close>.
  The identity key of \<^verbatim>\<open>sort_notaries\<close> (\<^verbatim>\<open>src/asyncNotary.py\<close>, lines 101 and 128)
  is \<open>notary_key\<close>.
\<close>

record notary =
  name :: string
  phone :: string
  mail :: string
  website :: string
  address :: string

definition make_notary :: "string \<Rightarrow> string \<Rightarrow> string \<Rightarrow> string \<Rightarrow> string \<Rightarrow> notary" where
  "make_notary nom ph ml ws addr = \<lparr>name = nom, phone = ph, mail = ml, website = ws, address = addr\<rparr>"

type_synonym identity_key = "string \<times> string \<times> string"

definition notary_key :: "notary \<Rightarrow> identity_key" where
  "notary_key notary = (address notary, format_phone_number (phone notary), mail notary)"

lemma make_notary_fields [simp]:
  "name (make_notary a b c d e) = a" "phone (make_notary a b c d e) = b"
  "mail (make_notary a b c d e) = c" "website (make_notary a b c d e) = d"
  "address (make_notary a b c d e) = e"
  by (simp_all add: make_notary_def)

end
