(* ===== verification/Dedup.thy ===== *)
theory Dedup
  imports Notary
begin

text \<open>
  The deduplication engine \<^verbatim>\<open>sort_notaries\<close> of \<^verbatim>\<open>src/asyncNotary.py\<close> (lines 96--129).
  \<^item> \<open>group_insert\<close> and \<open>group_notaries\<close> are the first loop (lines 99--105): the
    dictionary \<^verbatim>\<open>notaries_dict\<close>, keyed by \<open>notary_key\<close>, is an association list in
    insertion order (Python dictionaries keep it), each value the list of records with
    that key in input order.
  \<^item> \<open>find_matching\<close> is the inner scan (lines 115--120) and \<open>resolve_group\<close> the body
    of the second loop (lines 111--125), with \<^verbatim>\<open>name.split()[0]\<close> raising
    \<open>IndexError\<close> on a non-empty whitespace-only name.
  \<^item> \<open>sort_notaries\<close> runs both loops and sorts stably by the key (line 128).
  The abstract specification \<open>dedup_spec\<close> says what the engine promises: one record per
  identity key, in ascending key order, the record being the first of its group whose
  first name equals its mail's local part, or else the first of its group. The refinement
  theorem proves that \<open>sort_notaries\<close> computes \<open>dedup_spec\<close> unless a group scan meets
  a blank name first (\<open>dedup_raises\<close>), in which case it raises \<open>IndexError\<close>.
\<close>

type_synonym notary_groups = "(identity_key \<times> notary list) list"

subsection \<open>The code\<close>

fun group_insert :: "identity_key \<Rightarrow> notary \<Rightarrow> notary_groups \<Rightarrow> notary_groups" where
  "group_insert key notary [] = [(key, [notary])]"
| "group_insert key notary ((k, ns) # gs) =
     (if k = key then (k, ns @ [notary]) # gs else (k, ns) # group_insert key notary gs)"

fun group_notaries :: "notary list \<Rightarrow> notary_groups \<Rightarrow> notary_groups" where
  "group_notaries [] notaries_dict = notaries_dict"
| "group_notaries (notary # notaries) notaries_dict =
     group_notaries notaries (group_insert (notary_key notary) notary notaries_dict)"

fun find_matching :: "notary list \<Rightarrow> notary option result" where
  "find_matching [] = Inr None"
| "find_matching (notary # notary_list) =
     (if name notary \<noteq> []
      then sbind (py_first (py_split_ws (name notary))) (\<lambda>first_name.
           sbind (py_split (mail notary) ''@'') (\<lambda>parts.
           sbind (py_first parts) (\<lambda>local_part.
             if first_name = local_part then Inr (Some notary) else find_matching notary_list)))
      else find_matching notary_list)"

definition resolve_group :: "notary list \<Rightarrow> notary list result" where
  "resolve_group notary_list =
     (if length notary_list = 1 then Inr notary_list
      else sbind (find_matching notary_list) (\<lambda>matching_notary.
        case matching_notary of
          Some notary \<Rightarrow> Inr [notary]
        | None \<Rightarrow> sbind (py_first notary_list) (\<lambda>notary. Inr [notary])))"

definition sort_notaries :: "notary list \<Rightarrow> notary list result" where
  "sort_notaries notaries =
     (let notaries_dict = group_notaries notaries [] in
      sbind (map_result (\<lambda>(key, notary_list). resolve_group notary_list) notaries_dict)
        (\<lambda>resolved. Inr (sort_key notary_key (concat resolved))))"

subsection \<open>The specification\<close>

definition local_part :: "string \<Rightarrow> string" where
  "local_part m = takeWhile (\<lambda>c. c \<noteq> CHR ''@'') m"

definition name_matches_mail :: "notary \<Rightarrow> bool" where
  "name_matches_mail n = (case py_split_ws (name n) of [] \<Rightarrow> False | w # _ \<Rightarrow> w = local_part (mail n))"

definition blank_name :: "notary \<Rightarrow> bool" where
  "blank_name n \<longleftrightarrow> name n \<noteq> [] \<and> py_split_ws (name n) = []"

definition canonical :: "notary list \<Rightarrow> notary" where
  "canonical g = (case find name_matches_mail g of Some n \<Rightarrow> n | None \<Rightarrow> hd g)"

definition key_group :: "notary list \<Rightarrow> identity_key \<Rightarrow> notary list" where
  "key_group xs k = filter (\<lambda>n. notary_key n = k) xs"

definition dedup_spec :: "notary list \<Rightarrow> notary list" where
  "dedup_spec xs = map (\<lambda>k. canonical (key_group xs k)) (sort (remdups (map notary_key xs)))"

definition group_raises :: "notary list \<Rightarrow> bool" where
  "group_raises g \<longleftrightarrow> 1 < length g \<and>
     (case find (\<lambda>n. blank_name n \<or> name_matches_mail n) g of Some n \<Rightarrow> blank_name n | None \<Rightarrow> False)"

definition dedup_raises :: "notary list \<Rightarrow> bool" where
  "dedup_raises xs \<longleftrightarrow> list_ex (\<lambda>k. group_raises (key_group xs k)) (map notary_key xs)"

text \<open>The keys in order of first occurrence: the order of the dictionary's entries.\<close>

definition first_occ :: "'a list \<Rightarrow> 'a list" where
  "first_occ xs = rev (remdups (rev xs))"

definition groups_of :: "notary list \<Rightarrow> notary_groups" where
  "groups_of xs = map (\<lambda>k. (k, key_group xs k)) (first_occ (map notary_key xs))"

subsection \<open>The dictionary loop builds the groups\<close>

lemma first_occ_snoc:
  "first_occ (xs @ [x]) = (if x \<in> set xs then first_occ xs else first_occ xs @ [x])"
  by (simp add: first_occ_def)

lemma set_first_occ [simp]: "set (first_occ xs) = set xs"
  by (simp add: first_occ_def)

lemma distinct_first_occ [simp]: "distinct (first_occ xs)"
  by (simp add: first_occ_def)

lemma group_insert_map:
  "distinct ks \<Longrightarrow>
   group_insert k n (map (\<lambda>k'. (k', f k')) ks) =
     (if k \<in> set ks then map (\<lambda>k'. (k', if k' = k then f k' @ [n] else f k')) ks
      else map (\<lambda>k'. (k', f k')) ks @ [(k, [n])])"
  by (induction ks) auto

lemma key_group_snoc:
  "key_group (ys @ [n]) k = key_group ys k @ (if notary_key n = k then [n] else [])"
  by (simp add: key_group_def)

lemma key_group_Nil_iff: "key_group xs k = [] \<longleftrightarrow> k \<notin> set (map notary_key xs)"
  by (auto simp: key_group_def filter_empty_conv)

lemma group_insert_groups_of:
  "group_insert (notary_key n) n (groups_of ys) = groups_of (ys @ [n])"
proof (cases "notary_key n \<in> set (map notary_key ys)")
  case True
  then show ?thesis
    by (simp add: groups_of_def group_insert_map first_occ_snoc key_group_snoc)
next
  case False
  then have "key_group ys (notary_key n) = []" by (simp add: key_group_Nil_iff)
  with False show ?thesis
    by (auto simp: groups_of_def group_insert_map first_occ_snoc key_group_snoc)
qed

lemma group_notaries_groups_of: "group_notaries xs (groups_of ys) = groups_of (ys @ xs)"
  by (induction xs arbitrary: ys) (simp_all add: group_insert_groups_of)

lemma group_notaries_Nil: "group_notaries xs [] = groups_of xs"
  using group_notaries_groups_of [of xs "[]"] by (simp add: groups_of_def first_occ_def)

subsection \<open>The scan of one group\<close>

lemma py_first_split_at: "py_first (split_on ''@'' [] m) = Inr (local_part m)"
  by (simp add: py_first_split_on hd_split_on_single local_part_def)

lemma find_matching_eq:
  "find_matching g =
     (case find (\<lambda>n. blank_name n \<or> name_matches_mail n) g of
        None \<Rightarrow> Inr None
      | Some n \<Rightarrow> if blank_name n then Inl IndexError else Inr (Some n))"
proof (induction g)
  case Nil
  then show ?case by simp
next
  case (Cons n g)
  show ?case
  proof (cases "name n = []")
    case True
    then have "\<not> blank_name n" "\<not> name_matches_mail n"
      by (simp_all add: blank_name_def name_matches_mail_def py_split_ws_def)
    with True Cons.IH show ?thesis by simp
  next
    case False
    show ?thesis
    proof (cases "py_split_ws (name n)")
      case Nil
      with False show ?thesis by (simp add: blank_name_def)
    next
      case (Cons w ws)
      then have "\<not> blank_name n" and "name_matches_mail n \<longleftrightarrow> w = local_part (mail n)"
        by (simp_all add: blank_name_def name_matches_mail_def)
      with False Cons Cons.IH show ?thesis by (simp add: py_first_split_at)
    qed
  qed
qed

lemma canonical_in_set: "g \<noteq> [] \<Longrightarrow> canonical g \<in> set g"
  by (auto simp: canonical_def dest: find_in_set split: option.split)

lemma resolve_group_eq:
  "g \<noteq> [] \<Longrightarrow> resolve_group g = (if group_raises g then Inl IndexError else Inr [canonical g])"
proof (cases "length g = 1")
  case True
  then obtain n where "g = [n]" by (cases g) auto
  then show ?thesis by (simp add: resolve_group_def group_raises_def canonical_def)
next
  case False
  assume "g \<noteq> []"
  with False have long: "1 < length g" by (cases g) auto
  show ?thesis
  proof (cases "find (\<lambda>n. blank_name n \<or> name_matches_mail n) g")
    case None
    then have "find name_matches_mail g = None" by (rule find_disj_None)
    with None False long \<open>g \<noteq> []\<close> show ?thesis
      by (cases g) (simp_all add: resolve_group_def find_matching_eq group_raises_def canonical_def)
  next
    case (Some n)
    show ?thesis
    proof (cases "blank_name n")
      case True
      with Some False long show ?thesis
        by (simp add: resolve_group_def find_matching_eq group_raises_def)
    next
      case nb: False
      with Some have "find name_matches_mail g = Some n" by (rule find_disj_Some)
      with Some nb False long show ?thesis
        by (simp add: resolve_group_def find_matching_eq group_raises_def canonical_def)
    qed
  qed
qed

subsection \<open>Sorting one record per key\<close>

lemma insort_key_map:
  "\<forall>y \<in> set (k # ys). f (g y) = y \<Longrightarrow> insort_key f (g k) (map g ys) = map g (insort k ys)"
  by (induction ys) auto

lemma sort_key_map:
  "\<forall>k \<in> set ks. f (g k) = k \<Longrightarrow> sort_key f (map g ks) = map g (sort ks)"
  by (induction ks) (simp_all add: insort_key_map)

lemma sort_distinct_eq:
  "distinct xs \<Longrightarrow> distinct ys \<Longrightarrow> set xs = set ys \<Longrightarrow> sort xs = sort ys"
  by (metis distinct_remdups_id sorted_list_of_set_sort_remdups)

lemma key_canonical:
  "k \<in> set (map notary_key xs) \<Longrightarrow> notary_key (canonical (key_group xs k)) = k"
proof -
  assume "k \<in> set (map notary_key xs)"
  then have "key_group xs k \<noteq> []" by (simp add: key_group_Nil_iff)
  then have "canonical (key_group xs k) \<in> set (key_group xs k)" by (rule canonical_in_set)
  then show ?thesis by (simp add: key_group_def)
qed

lemma list_ex_groups_of:
  "list_ex (\<lambda>(k, g). group_raises g) (groups_of xs) \<longleftrightarrow> dedup_raises xs"
  by (auto simp: groups_of_def dedup_raises_def list_ex_iff)

lemma concat_singletons:
  "concat (map (\<lambda>(k, g). [canonical g]) (map (\<lambda>k. (k, F k)) ks)) = map (\<lambda>k. canonical (F k)) ks"
  by (induction ks) auto

lemma concat_groups_of:
  "concat (map (\<lambda>(k, g). [canonical g]) (groups_of xs)) =
   map (\<lambda>k. canonical (key_group xs k)) (first_occ (map notary_key xs))"
  unfolding groups_of_def by (rule concat_singletons)

lemma sort_groups_of:
  "sort_key notary_key (map (\<lambda>k. canonical (key_group xs k)) (first_occ (map notary_key xs))) =
   dedup_spec xs"
proof -
  have "sort_key notary_key (map (\<lambda>k. canonical (key_group xs k)) (first_occ (map notary_key xs))) =
        map (\<lambda>k. canonical (key_group xs k)) (sort (first_occ (map notary_key xs)))"
    by (rule sort_key_map) (simp add: key_canonical)
  also have "sort (first_occ (map notary_key xs)) = sort (remdups (map notary_key xs))"
    by (rule sort_distinct_eq) simp_all
  finally show ?thesis by (simp add: dedup_spec_def)
qed

lemma resolve_groups_of:
  assumes "x \<in> set (groups_of xs)"
  shows "(\<lambda>(k, g). resolve_group g) x =
     (if (\<lambda>(k, g). group_raises g) x then Inl IndexError else Inr ((\<lambda>(k, g). [canonical g]) x))"
proof -
  from assms have "x \<in> (\<lambda>k. (k, key_group xs k)) ` set (first_occ (map notary_key xs))"
    unfolding groups_of_def by (simp only: set_map)
  then obtain k where "k \<in> set (first_occ (map notary_key xs))" and x: "x = (k, key_group xs k)"
    by blast
  then have k: "k \<in> set (map notary_key xs)" by (simp only: set_first_occ)
  from k have "key_group xs k \<noteq> []" by (simp add: key_group_Nil_iff)
  then show ?thesis by (simp add: x resolve_group_eq)
qed

lemma sort_notaries_eq:
  "sort_notaries xs = (if dedup_raises xs then Inl IndexError else Inr (dedup_spec xs))"
proof -
  have "map_result (\<lambda>(key, notary_list). resolve_group notary_list) (groups_of xs) =
        (if list_ex (\<lambda>(k, g). group_raises g) (groups_of xs) then Inl IndexError
         else Inr (map (\<lambda>(k, g). [canonical g]) (groups_of xs)))"
    by (rule map_result_uniform) (rule resolve_groups_of)
  then show ?thesis
    by (simp add: sort_notaries_def group_notaries_Nil list_ex_groups_of concat_groups_of
        sort_groups_of)
qed

text \<open>(C1) Refinement: \<^verbatim>\<open>sort_notaries\<close> computes the abstract specification
  \<open>dedup_spec\<close> (one record per identity key, keys ascending, each the first record of its
  group whose first name equals its mail's local part, or else the first of the group),
  except that it raises \<open>IndexError\<close> exactly when the scan of some group of two or more
  records meets a non-empty whitespace-only name before any matching record.\<close>

theorem sort_notaries_refines:
  "sort_notaries xs = (if dedup_raises xs then Inl IndexError else Inr (dedup_spec xs))"
  by (rule sort_notaries_eq)

subsection \<open>Properties of the specification\<close>

lemma map_key_dedup_spec: "map notary_key (dedup_spec xs) = sort (remdups (map notary_key xs))"
  unfolding dedup_spec_def map_map comp_def
  by (rule map_idI) (simp add: key_canonical del: set_map)

lemma dedup_spec_members: "set (dedup_spec xs) \<subseteq> set xs"
proof
  fix n assume "n \<in> set (dedup_spec xs)"
  then obtain k where k: "k \<in> set (map notary_key xs)" and n: "n = canonical (key_group xs k)"
    by (auto simp: dedup_spec_def)
  from k have "key_group xs k \<noteq> []" by (simp add: key_group_Nil_iff)
  then have "n \<in> set (key_group xs k)" unfolding n by (rule canonical_in_set)
  then show "n \<in> set xs" by (simp add: key_group_def)
qed

lemma key_group_distinct:
  "distinct (map notary_key ys) \<Longrightarrow> n \<in> set ys \<Longrightarrow> key_group ys (notary_key n) = [n]"
proof (induction ys)
  case Nil
  then show ?case by simp
next
  case (Cons m ys)
  show ?case
  proof (cases "m = n")
    case True
    with Cons.prems have "key_group ys (notary_key n) = []"
      by (auto simp: key_group_Nil_iff)
    with True show ?thesis by (simp add: key_group_def)
  next
    case False
    with Cons.prems have "n \<in> set ys" and "notary_key m \<noteq> notary_key n" by auto
    with Cons show ?thesis by (simp add: key_group_def)
  qed
qed

lemma dedup_spec_unique_keys:
  assumes "sorted (map notary_key ys)" and "distinct (map notary_key ys)"
  shows "dedup_spec ys = ys" and "\<not> dedup_raises ys"
proof -
  have "sort (remdups (map notary_key ys)) = map notary_key ys"
    using assms by (simp add: distinct_remdups_id sorted_sort_id)
  then have "dedup_spec ys = map (\<lambda>n. canonical (key_group ys (notary_key n))) ys"
    by (simp add: dedup_spec_def)
  also have "\<dots> = ys"
    using assms(2) by (intro map_idI) (simp add: key_group_distinct canonical_def)
  finally show "dedup_spec ys = ys" .
  show "\<not> dedup_raises ys"
    using assms(2) by (auto simp: dedup_raises_def list_ex_iff key_group_distinct group_raises_def)
qed

lemma sort_notaries_Inr: "sort_notaries xs = Inr ys \<longleftrightarrow> \<not> dedup_raises xs \<and> ys = dedup_spec xs"
  by (auto simp: sort_notaries_eq)

lemma set_keys_key_group:
  "(\<forall>k. key_group xs k = key_group ys k) \<Longrightarrow> set (map notary_key xs) = set (map notary_key ys)"
  by (metis key_group_Nil_iff subsetI subset_antisym)

lemma sort_remdups_set_eq:
  "set xs = set ys \<Longrightarrow> sort (remdups xs) = sort (remdups ys)"
  by (rule sort_distinct_eq) simp_all

text \<open>The facts that evaluate the engine on concrete records.\<close>

lemmas dedup_eval = sort_notaries_def make_notary_def notary_key_def format_phone_number_fields
  phone_fields_def py_slice_def phone_digits_def is_ascii_digit_def resolve_group_def
  py_split_ws_def is_py_space_def

subsection \<open>Properties of the engine\<close>

text \<open>(C5) When \<^verbatim>\<open>sort_notaries\<close> returns, its output has one record per identity key
  \<open>(address, format_phone_number phone, mail)\<close> of the input, no key twice, in ascending key
  order.\<close>

theorem sort_notaries_keys:
  assumes "sort_notaries xs = Inr ys"
  shows "sorted (map notary_key ys) \<and> distinct (map notary_key ys) \<and>
         set (map notary_key ys) = set (map notary_key xs)"
  using assms by (simp add: sort_notaries_Inr map_key_dedup_spec)

text \<open>(C22) Every output record is one of the input records, unchanged, and the output
  is no longer than the input.\<close>

theorem sort_notaries_members:
  assumes "sort_notaries xs = Inr ys"
  shows "set ys \<subseteq> set xs \<and> length ys \<le> length xs"
proof -
  from assms have ys: "ys = dedup_spec xs" by (simp add: sort_notaries_Inr)
  have "length ys = length (remdups (map notary_key xs))" by (simp add: ys dedup_spec_def)
  also have "\<dots> \<le> length xs" using length_remdups_leq [of "map notary_key xs"] by simp
  finally show ?thesis using dedup_spec_members ys by simp
qed

text \<open>(C6) The record kept for a key is the first record of that key's group, in input
  order, whose first whitespace-separated name token equals, case-sensitively, the part of
  its mail before \<^verbatim>\<open>@\<close>; when no record of the group matches, it is the first record of
  the group.\<close>

theorem sort_notaries_choice:
  assumes "sort_notaries xs = Inr ys" and "n \<in> set ys"
  shows "n = (case find name_matches_mail (key_group xs (notary_key n)) of
                Some m \<Rightarrow> m
              | None \<Rightarrow> hd (key_group xs (notary_key n)))"
proof -
  from assms obtain k where k: "k \<in> set (map notary_key xs)" and n: "n = canonical (key_group xs k)"
    by (auto simp: sort_notaries_Inr dedup_spec_def)
  from k n have kn: "notary_key n = k" by (simp add: key_canonical)
  have "n = canonical (key_group xs (notary_key n))" by (subst kn) (rule n)
  then show ?thesis unfolding canonical_def .
qed

text \<open>(C21) Idempotence: running the engine on its own output returns that output.\<close>

theorem sort_notaries_idem:
  assumes "sort_notaries xs = Inr ys"
  shows "sort_notaries ys = Inr ys"
proof -
  from assms have "sorted (map notary_key ys)" and "distinct (map notary_key ys)"
    by (simp_all add: sort_notaries_Inr map_key_dedup_spec)
  then show ?thesis by (simp add: sort_notaries_eq dedup_spec_unique_keys)
qed

text \<open>(C23) The result depends on the input order only through the order of the
  records inside each group: two inputs with the same group for every key (however the groups
  interleave, as fetch completion order may make them) give the same result, or the same
  exception.\<close>

theorem sort_notaries_group_order:
  assumes "\<forall>k. key_group xs k = key_group ys k"
  shows "sort_notaries xs = sort_notaries ys"
proof -
  have keys: "set (map notary_key xs) = set (map notary_key ys)"
    using assms by (rule set_keys_key_group)
  have groups: "key_group xs = key_group ys" using assms by (simp add: fun_eq_iff)
  have "dedup_raises xs = dedup_raises ys"
    unfolding dedup_raises_def list_ex_iff groups keys ..
  moreover have "dedup_spec xs = dedup_spec ys"
    using sort_remdups_set_eq [OF keys] by (simp add: dedup_spec_def groups)
  ultimately show ?thesis by (simp add: sort_notaries_eq)
qed

text \<open>(C24) Whatever the order in which the records arrive, when the engine returns,
  the list of keys it returns is the same.\<close>

theorem sort_notaries_perm_keys:
  assumes "mset xs = mset ys" and "sort_notaries xs = Inr as" and "sort_notaries ys = Inr bs"
  shows "map notary_key as = map notary_key bs"
proof -
  from assms(1) have "set (map notary_key xs) = set (map notary_key ys)"
    by (metis set_map set_mset_mset)
  with assms(2,3) show ?thesis
    by (simp add: sort_notaries_Inr map_key_dedup_spec sort_remdups_set_eq)
qed



text \<open>A run in which no record has a blank name never raises in the deduplication pass.\<close>

lemma no_blank_not_raises: "list_all (\<lambda>n. \<not> blank_name n) xs \<Longrightarrow> \<not> dedup_raises xs"
proof
  assume nb: "list_all (\<lambda>n. \<not> blank_name n) xs" and "dedup_raises xs"
  then have "\<exists>k. group_raises (key_group xs k)" unfolding dedup_raises_def list_ex_iff by blast
  then obtain k where "group_raises (key_group xs k)" by blast
  then obtain n where f: "find (\<lambda>n. blank_name n \<or> name_matches_mail n) (key_group xs k) = Some n"
    and "blank_name n" by (auto simp: group_raises_def split: option.splits)
  from f have "n \<in> set xs" by (auto simp: key_group_def dest: find_in_set)
  with nb \<open>blank_name n\<close> show False by (simp add: list_all_iff)
qed

end
