(* ===== verification/Html.thy ===== *)
theory Html
  imports PyStr
begin

text \<open>
  The parsed document and the BeautifulSoup calls the program makes on it. BeautifulSoup is
  a library the sources only call; the model follows its documented behaviour, which the
  specification summarises as ``locate a node by tag/class and return its text/attribute''.
  \<^item> A document is a tree of \<open>node\<close>s: a tag (name, attributes, children) or a text.
    The parsed page itself (the \<^verbatim>\<open>BeautifulSoup\<close> object) is the root tag.
  \<^item> \<open>find_all_in t nm cls\<close> is \<^verbatim>\<open>t.find_all(nm, class_=cls)\<close>: the descendants of
    \<open>t\<close>, in document order, that are tags named \<open>nm\<close> and, when a class is given, whose
    \<^verbatim>\<open>class\<close> attribute (split at whitespace) contains it or, joined by single spaces, equals
    it. \<open>find_in\<close> is \<^verbatim>\<open>t.find(...)\<close>, the first of them or \<^verbatim>\<open>None\<close>.
  \<^item> \<open>node_text\<close> is \<^verbatim>\<open>.text\<close>, the concatenation of the texts below a node, and
    \<open>attr\<close> reads an attribute.
  \<^item> A Python value that is a tag or \<^verbatim>\<open>None\<close> is a \<open>node option\<close>. On \<^verbatim>\<open>None\<close>,
    \<open>py_find\<close>, \<open>py_find_all\<close> and \<open>py_text\<close> raise \<open>AttributeError\<close> (an attribute
    of \<^verbatim>\<open>None\<close>), \<open>py_getitem\<close> raises \<open>TypeError\<close> (\<^verbatim>\<open>None['href']\<close>), and on a tag
    without the attribute \<open>py_getitem\<close> raises \<open>KeyError\<close>.
\<close>

datatype node =
    Tag string "(string \<times> string) list" "node list"
  | Text string

fun descendants :: "node \<Rightarrow> node list" where
  "descendants (Tag nm attrs children) = concat (map (\<lambda>c. c # descendants c) children)"
| "descendants (Text s) = []"

fun node_text :: "node \<Rightarrow> string" where
  "node_text (Tag nm attrs children) = concat (map node_text children)"
| "node_text (Text s) = s"

fun attr :: "node \<Rightarrow> string \<Rightarrow> string option" where
  "attr (Tag nm attrs children) a = map_of attrs a"
| "attr (Text s) a = None"

definition class_matches :: "string option \<Rightarrow> string \<Rightarrow> bool" where
  "class_matches v c =
     (case v of None \<Rightarrow> False
      | Some raw \<Rightarrow> c \<in> set (py_split_ws raw) \<or> c = py_join '' '' (py_split_ws raw))"

fun tag_matches :: "string \<Rightarrow> string option \<Rightarrow> node \<Rightarrow> bool" where
  "tag_matches nm cls (Tag n attrs children) =
     (n = nm \<and> (case cls of None \<Rightarrow> True | Some c \<Rightarrow> class_matches (map_of attrs ''class'') c))"
| "tag_matches nm cls (Text s) = False"

definition find_all_in :: "node \<Rightarrow> string \<Rightarrow> string option \<Rightarrow> node list" where
  "find_all_in t nm cls = filter (tag_matches nm cls) (descendants t)"

definition find_in :: "node \<Rightarrow> string \<Rightarrow> string option \<Rightarrow> node option" where
  "find_in t nm cls = find (tag_matches nm cls) (descendants t)"

definition py_find :: "node option \<Rightarrow> string \<Rightarrow> string option \<Rightarrow> node option result" where
  "py_find v nm cls = (case v of None \<Rightarrow> Inl AttributeError | Some t \<Rightarrow> Inr (find_in t nm cls))"

definition py_find_all :: "node option \<Rightarrow> string \<Rightarrow> string option \<Rightarrow> node list result" where
  "py_find_all v nm cls = (case v of None \<Rightarrow> Inl AttributeError | Some t \<Rightarrow> Inr (find_all_in t nm cls))"

definition py_text :: "node option \<Rightarrow> string result" where
  "py_text v = (case v of None \<Rightarrow> Inl AttributeError | Some t \<Rightarrow> Inr (node_text t))"

definition py_getitem :: "node option \<Rightarrow> string \<Rightarrow> string result" where
  "py_getitem v a =
     (case v of None \<Rightarrow> Inl TypeError
      | Some t \<Rightarrow> (case attr t a of None \<Rightarrow> Inl KeyError | Some x \<Rightarrow> Inr x))"

lemma py_find_simps [simp]:
  "py_find None nm cls = Inl AttributeError" "py_find (Some t) nm cls = Inr (find_in t nm cls)"
  by (simp_all add: py_find_def)

lemma py_find_all_simps [simp]:
  "py_find_all None nm cls = Inl AttributeError"
  "py_find_all (Some t) nm cls = Inr (find_all_in t nm cls)"
  by (simp_all add: py_find_all_def)

lemma py_text_simps [simp]: "py_text None = Inl AttributeError" "py_text (Some t) = Inr (node_text t)"
  by (simp_all add: py_text_def)

lemma py_getitem_simps [simp]:
  "py_getitem None a = Inl TypeError"
  "py_getitem (Some t) a = (case attr t a of None \<Rightarrow> Inl KeyError | Some x \<Rightarrow> Inr x)"
  by (simp_all add: py_getitem_def)

lemma find_in_hd: "find_in t nm cls = (case find_all_in t nm cls of [] \<Rightarrow> None | x # _ \<Rightarrow> Some x)"
  unfolding find_in_def find_all_in_def by (rule find_filter_hd)

lemma find_in_Some: "find_in t nm cls = Some x \<Longrightarrow> x \<in> set (descendants t) \<and> tag_matches nm cls x"
  unfolding find_in_def by (rule find_in_set)

lemma find_in_None: "find_in t nm cls = None \<longleftrightarrow> find_all_in t nm cls = []"
  by (auto simp: find_in_def find_all_in_def find_None_iff filter_empty_conv)

lemma find_all_in_tags: "x \<in> set (find_all_in t nm cls) \<Longrightarrow> \<exists>as cs. x = Tag nm as cs"
  by (cases x) (auto simp: find_all_in_def)

end
