(* ===== verification/Extractors.thy ===== *)
theory Extractors
  imports Html Phone
begin

text \<open>
  The field extractors \<^verbatim>\<open>get_name\<close>, \<^verbatim>\<open>get_phone\<close>, \<^verbatim>\<open>get_mail\<close>, \<^verbatim>\<open>get_website\<close> and
  \<^verbatim>\<open>get_address\<close> of \<^verbatim>\<open>src/asyncNotary.py\<close> (lines 33--77). Each is a chain of
  BeautifulSoup calls inside \<^verbatim>\<open>try: ... except AttributeError: return ""\<close>, so each model
  is \<open>catch AttributeError ''''\<close> around the chain, every call of the chain a call of
  \<open>Html\<close>. The lemmas \<open>get_..._eq\<close> give each extractor's value on every document, by the
  shape of the document; from them, \<^verbatim>\<open>get_name\<close>, \<^verbatim>\<open>get_phone\<close> and \<^verbatim>\<open>get_address\<close> never
  raise, whereas \<^verbatim>\<open>get_mail\<close> and \<^verbatim>\<open>get_website\<close> raise \<open>TypeError\<close> when the field's
  container has no link and \<open>KeyError\<close> when its link has no \<^verbatim>\<open>href\<close>: the handler
  catches neither.
\<close>

definition get_name :: "node \<Rightarrow> string result" where
  "get_name soup = catch AttributeError ''''
     (sbind (py_find (Some soup) ''h1'' (Some ''office-sheet__title text-center text-m-start'')) (\<lambda>h1.
      sbind (py_find h1 ''span'' None) (\<lambda>span.
      sbind (py_text span) (\<lambda>text.
      sbind (py_split text '' : '') py_first))))"

definition get_phone :: "node \<Rightarrow> string result" where
  "get_phone soup = catch AttributeError ''''
     (sbind (py_find (Some soup) ''div'' (Some ''office-sheet__phone field--telephone'')) (\<lambda>container.
      sbind (py_find container ''a'' None) (\<lambda>a.
      sbind (py_text a) (\<lambda>phone.
      Inr (format_phone_number phone)))))"

definition get_mail :: "node \<Rightarrow> string result" where
  "get_mail soup = catch AttributeError ''''
     (sbind (py_find (Some soup) ''div'' (Some ''office-sheet__email field--email'')) (\<lambda>container.
      sbind (py_find container ''a'' None) (\<lambda>a.
      sbind (py_getitem a ''href'') (\<lambda>href.
      Inr (py_replace href ''mailto:'' '''')))))"

definition get_website :: "node \<Rightarrow> string result" where
  "get_website soup = catch AttributeError ''''
     (sbind (py_find (Some soup) ''div'' (Some ''office-sheet__url field--link'')) (\<lambda>container.
      sbind (py_find container ''a'' None) (\<lambda>a.
      sbind (py_getitem a ''href'') (\<lambda>website.
      if startswith website ''http'' then Inr website else Inr (''https://'' @ website)))))"

definition get_address :: "node \<Rightarrow> string result" where
  "get_address soup = catch AttributeError ''''
     (sbind (py_find (Some soup) ''div'' (Some ''office-sheet__address field--address'')) (\<lambda>container.
      sbind (py_find container ''p'' (Some ''address'')) (\<lambda>p.
      sbind (py_find_all p ''span'' None) (\<lambda>spans.
      Inr (py_join '' '' (map node_text spans))))))"

subsection \<open>The value of each extractor\<close>

text \<open>(C29) \<^verbatim>\<open>get_name\<close> returns the text of the first \<^verbatim>\<open>span\<close> of the title
  heading up to the first \<^verbatim>\<open>" : "\<close>, and the empty string when the heading or its span is
  missing; it never raises.\<close>

theorem get_name_eq:
  "get_name soup =
     Inr (case find_in soup ''h1'' (Some ''office-sheet__title text-center text-m-start'') of
            None \<Rightarrow> ''''
          | Some h1 \<Rightarrow> (case find_in h1 ''span'' None of
                          None \<Rightarrow> ''''
                        | Some span \<Rightarrow> hd (split_on '' : '' [] (node_text span))))"
  by (simp add: get_name_def py_first_split_on split: option.split)

text \<open>(C30) \<^verbatim>\<open>get_phone\<close> returns the formatted text of the phone field's first
  link, and the empty string when the field or its link is missing; it never raises.\<close>

theorem get_phone_eq:
  "get_phone soup =
     Inr (case find_in soup ''div'' (Some ''office-sheet__phone field--telephone'') of
            None \<Rightarrow> ''''
          | Some container \<Rightarrow> (case find_in container ''a'' None of
                           None \<Rightarrow> ''''
                         | Some a \<Rightarrow> format_phone_number (node_text a)))"
  by (simp add: get_phone_def split: option.split)

text \<open>(C8) \<^verbatim>\<open>get_mail\<close> returns the link target of the mail field with every
  \<^verbatim>\<open>mailto:\<close> removed, and the empty string when the field is missing; but when the field
  has no link it raises \<open>TypeError\<close>, and when its link has no \<^verbatim>\<open>href\<close> it raises
  \<open>KeyError\<close>: neither is caught.\<close>

theorem get_mail_eq:
  "get_mail soup =
     (case find_in soup ''div'' (Some ''office-sheet__email field--email'') of
        None \<Rightarrow> Inr ''''
      | Some container \<Rightarrow> (case find_in container ''a'' None of
                       None \<Rightarrow> Inl TypeError
                     | Some a \<Rightarrow> (case attr a ''href'' of
                                    None \<Rightarrow> Inl KeyError
                                  | Some href \<Rightarrow> Inr (py_replace href ''mailto:'' ''''))))"
  by (simp add: get_mail_def split: option.split)

text \<open>(C9) \<^verbatim>\<open>get_website\<close> returns the link target of the URL field, with
  \<^verbatim>\<open>https://\<close> prepended unless it starts with \<^verbatim>\<open>http\<close>, and the empty string when the field is
  missing; it raises \<open>TypeError\<close> or \<open>KeyError\<close> as \<^verbatim>\<open>get_mail\<close> does.\<close>

theorem get_website_eq:
  "get_website soup =
     (case find_in soup ''div'' (Some ''office-sheet__url field--link'') of
        None \<Rightarrow> Inr ''''
      | Some container \<Rightarrow> (case find_in container ''a'' None of
                       None \<Rightarrow> Inl TypeError
                     | Some a \<Rightarrow> (case attr a ''href'' of
                                    None \<Rightarrow> Inl KeyError
                                  | Some w \<Rightarrow> Inr (if startswith w ''http'' then w else ''https://'' @ w))))"
  by (simp add: get_website_def split: option.split)

text \<open>(C31) \<^verbatim>\<open>get_address\<close> returns the texts of all the \<^verbatim>\<open>span\<close>s below the
  address paragraph, joined by single spaces, and the empty string when the field or the
  paragraph is missing; it never raises.\<close>

theorem get_address_eq:
  "get_address soup =
     Inr (case find_in soup ''div'' (Some ''office-sheet__address field--address'') of
            None \<Rightarrow> ''''
          | Some container \<Rightarrow> (case find_in container ''p'' (Some ''address'') of
                           None \<Rightarrow> ''''
                         | Some p \<Rightarrow> py_join '' '' (map node_text (find_all_in p ''span'' None))))"
  by (simp add: get_address_def split: option.split)

end
