(* ===== verification/Csv.thy ===== *)
theory Csv
  imports PyStr
begin

text \<open>
  The CSV files the program writes and reads back through pandas (\<^verbatim>\<open>src/asyncNotary.py\<close>,
  lines 133, 135 and 158). pandas is a library the program only calls; this theory models
  its documented behaviour with the defaults the program uses.
  \<^item> A data frame is a \<open>frame\<close>: its column names and its rows, a cell \<open>None\<close> when it
    is missing (NaN).
  \<^item> \<open>to_csv\<close> is \<^verbatim>\<open>DataFrame.to_csv(path, index=False)\<close>: a header line, then one line per
    row, written by Python's \<^verbatim>\<open>csv\<close> writer with \<^verbatim>\<open>QUOTE_MINIMAL\<close>. A cell is quoted when
    it contains the separator, the quote character or a line-break character, an inner
    quote is doubled, a missing cell is written empty, and a line holding one empty field
    is written \<^verbatim>\<open>""\<close>. Lines end with \<^verbatim>\<open>os.linesep\<close>, \<^verbatim>\<open>\r\n\<close>: the program sets the
    Windows event-loop policy and runs on Windows only.
  \<^item> \<open>tokenize\<close> is the tokenizer of \<^verbatim>\<open>read_csv\<close>, one character at a time: a field is quoted
    when it starts with a quote, \<^verbatim>\<open>""\<close> inside quotes is one quote, characters after the
    closing quote are appended, CR, LF and CRLF end a record, an empty line is skipped
    (\<^verbatim>\<open>skip_blank_lines=True\<close>), and the end of the input inside quotes is a
    \<open>ParserError\<close>.
  \<^item> \<open>read_csv\<close> takes the first record as the header (no record at all: \<open>EmptyDataError\<close>),
    reads a cell as missing when it is one of pandas' default NA strings
    \<open>pandas_na_values\<close>, pads a short row with missing cells and rejects a long one
    (\<open>ParserError\<close>).
  The lemma \<open>read_csv_written\<close> is the round trip: reading back a written frame gives the
  frame, each cell that pandas reads as missing replaced by \<open>None\<close>.
\<close>

record frame =
  columns :: "string list"
  frame_rows :: "string option list list"

definition csv_quote :: char where
  "csv_quote = CHR 0x22"

definition csv_eol :: string where
  "csv_eol = [CHR 0x0D, CHR 0x0A]"

definition csv_special :: "char \<Rightarrow> bool" where
  "csv_special c \<longleftrightarrow> c = CHR '','' \<or> c = csv_quote \<or> c = CHR 0x0D \<or> c = CHR 0x0A"

definition csv_escape :: "string \<Rightarrow> string" where
  "csv_escape s = concat (map (\<lambda>c. if c = csv_quote then [csv_quote, csv_quote] else [c]) s)"

definition csv_field :: "string \<Rightarrow> string" where
  "csv_field s = (if list_ex csv_special s then csv_quote # csv_escape s @ [csv_quote] else s)"

definition csv_line :: "string list \<Rightarrow> string" where
  "csv_line cells =
     (if cells = [[]] then [csv_quote, csv_quote] else py_join '','' (map csv_field cells)) @ csv_eol"

definition na_rep :: "string option \<Rightarrow> string" where
  "na_rep v = (case v of None \<Rightarrow> [] | Some s \<Rightarrow> s)"

definition to_csv :: "frame \<Rightarrow> string" where
  "to_csv df = csv_line (columns df) @ concat (map (\<lambda>r. csv_line (map na_rep r)) (frame_rows df))"

datatype tok_mode = Start_Field | Unquoted | Quoted | Quote_Seen

fun tokenize :: "tok_mode \<Rightarrow> string \<Rightarrow> string list \<Rightarrow> string list list \<Rightarrow> string \<Rightarrow>
    string list list result" where
  "tokenize m fld row recs [] =
     (if m = Quoted then Inl ParserError
      else if m = Start_Field \<and> row = [] then Inr recs
      else Inr (recs @ [row @ [fld]]))"
| "tokenize m fld row recs (c # cs) =
     (if m = Quoted then
        (if c = csv_quote then tokenize Quote_Seen fld row recs cs
         else tokenize Quoted (fld @ [c]) row recs cs)
      else if c = csv_quote \<and> m = Start_Field then tokenize Quoted fld row recs cs
      else if c = csv_quote \<and> m = Quote_Seen then tokenize Quoted (fld @ [c]) row recs cs
      else if c = CHR '','' then tokenize Start_Field [] (row @ [fld]) recs cs
      else if c = CHR 0x0D \<or> c = CHR 0x0A then
        (if m = Start_Field \<and> row = [] then tokenize Start_Field [] [] recs cs
         else tokenize Start_Field [] [] (recs @ [row @ [fld]]) cs)
      else tokenize Unquoted (fld @ [c]) row recs cs)"

definition pandas_na_values :: "string list" where
  "pandas_na_values = ['''', ''#N/A'', ''#N/A N/A'', ''#NA'', ''-1.#IND'', ''-1.#QNAN'', ''-NaN'',
     ''-nan'', ''1.#IND'', ''1.#QNAN'', ''<NA>'', ''N/A'', ''NA'', ''NULL'', ''NaN'', ''None'',
     ''n/a'', ''nan'', ''null'']"

definition na_cell :: "string \<Rightarrow> bool" where
  "na_cell v \<longleftrightarrow> v \<in> set pandas_na_values"

definition na_of :: "string \<Rightarrow> string option" where
  "na_of v = (if na_cell v then None else Some v)"

definition read_csv :: "string \<Rightarrow> frame result" where
  "read_csv text = sbind (tokenize Start_Field [] [] [] text) (\<lambda>recs.
     case recs of
       [] \<Rightarrow> Inl EmptyDataError
     | header # data \<Rightarrow>
         if list_all (\<lambda>r. length r \<le> length header) data
         then Inr \<lparr>columns = header,
                   frame_rows = map (\<lambda>r. map na_of r @ replicate (length header - length r) None) data\<rparr>
         else Inl ParserError)"

subsection \<open>Tokenizing what the writer writes\<close>

lemma na_cell_Nil [simp]: "na_cell ''''"
  by (simp add: na_cell_def pandas_na_values_def)

lemma csv_quote_special [simp]: "csv_special csv_quote"
  by (simp add: csv_special_def)

lemma csv_special_simps [simp]:
  "csv_special CHR '',''" "csv_special (CHR 0x0D)" "csv_special (CHR 0x0A)"
  by (simp_all add: csv_special_def)

lemma csv_quote_neq [simp]:
  "csv_quote \<noteq> CHR '',''" "csv_quote \<noteq> CHR 0x0D" "csv_quote \<noteq> CHR 0x0A"
  "CHR '','' \<noteq> csv_quote" "CHR 0x0D \<noteq> csv_quote" "CHR 0x0A \<noteq> csv_quote"
  by (simp_all add: csv_quote_def)

lemma tokenize_unquoted:
  "list_all (\<lambda>x. \<not> csv_special x) s \<Longrightarrow>
   tokenize Unquoted fld row recs (s @ rest) = tokenize Unquoted (fld @ s) row recs rest"
  by (induction s arbitrary: fld) (auto simp: csv_special_def)

lemma tokenize_quoted:
  "tokenize Quoted fld row recs (csv_escape s @ csv_quote # rest) = tokenize Quote_Seen (fld @ s) row recs rest"
  by (induction s arbitrary: fld) (auto simp: csv_escape_def)

lemma tokenize_field_end:
  assumes "d = CHR '','' \<or> d = CHR 0x0D" and "d = CHR 0x0D \<longrightarrow> row \<noteq> [] \<or> s \<noteq> []"
  shows "tokenize Start_Field [] row recs (csv_field s @ d # rest) =
    (if d = CHR '','' then tokenize Start_Field [] (row @ [s]) recs rest
     else tokenize Start_Field [] [] (recs @ [row @ [s]]) rest)"
proof (cases "list_ex csv_special s")
  case True
  then show ?thesis using assms
    by (auto simp: csv_field_def tokenize_quoted [of "[]", simplified])
next
  case False
  then have ns: "list_all (\<lambda>x. \<not> csv_special x) s" by (simp add: list_ex_iff list_all_iff)
  show ?thesis
  proof (cases s)
    case Nil
    then show ?thesis using assms by (auto simp: csv_field_def)
  next
    case (Cons x s')
    with ns have "\<not> csv_special x" and "list_all (\<lambda>x. \<not> csv_special x) s'" by auto
    then show ?thesis using assms False Cons
      by (auto simp: csv_field_def tokenize_unquoted csv_special_def)
  qed
qed

lemma tokenize_fields:
  "cells \<noteq> [] \<Longrightarrow> \<not> (row = [] \<and> cells = [[]]) \<Longrightarrow>
   tokenize Start_Field [] row recs (py_join '','' (map csv_field cells) @ csv_eol @ rest) =
   tokenize Start_Field [] [] (recs @ [row @ cells]) rest"
proof (induction cells arbitrary: row)
  case Nil
  then show ?case by simp
next
  case (Cons c cs)
  show ?case
  proof (cases "cs = []")
    case True
    with Cons.prems have "row \<noteq> [] \<or> c \<noteq> []" by auto
    then have "tokenize Start_Field [] row recs (csv_field c @ CHR 0x0D # CHR 0x0A # rest) =
        tokenize Start_Field [] [] (recs @ [row @ [c]]) (CHR 0x0A # rest)"
      by (simp add: tokenize_field_end)
    then show ?thesis using True by (simp add: csv_eol_def)
  next
    case False
    have "tokenize Start_Field [] row recs (csv_field c @ CHR '','' # py_join '','' (map csv_field cs) @ csv_eol @ rest) =
        tokenize Start_Field [] (row @ [c]) recs (py_join '','' (map csv_field cs) @ csv_eol @ rest)"
      by (simp add: tokenize_field_end)
    also have "\<dots> = tokenize Start_Field [] [] (recs @ [(row @ [c]) @ cs]) rest"
      using False by (intro Cons.IH) simp_all
    finally show ?thesis using False by (simp add: py_join_Cons)
  qed
qed

lemma tokenize_csv_line:
  "cells \<noteq> [] \<Longrightarrow>
   tokenize Start_Field [] [] recs (csv_line cells @ rest) = tokenize Start_Field [] [] (recs @ [cells]) rest"
proof (cases "cells = [[]]")
  case True
  then show ?thesis by (simp add: csv_line_def csv_eol_def)
next
  case False
  assume "cells \<noteq> []"
  with False show ?thesis by (simp add: csv_line_def tokenize_fields)
qed

lemma tokenize_csv_lines:
  "list_all (\<lambda>c. c \<noteq> []) lines \<Longrightarrow>
   tokenize Start_Field [] [] recs (concat (map csv_line lines) @ rest) =
   tokenize Start_Field [] [] (recs @ lines) rest"
proof (induction lines arbitrary: recs)
  case Nil
  then show ?case by simp
next
  case (Cons l ls)
  then have "tokenize Start_Field [] [] recs (csv_line l @ concat (map csv_line ls) @ rest) =
      tokenize Start_Field [] [] (recs @ [l]) (concat (map csv_line ls) @ rest)"
    by (simp add: tokenize_csv_line)
  also have "\<dots> = tokenize Start_Field [] [] ((recs @ [l]) @ ls) rest"
    using Cons by simp
  finally show ?case by simp
qed

lemma to_csv_lines: "to_csv df = concat (map csv_line (columns df # map (map na_rep) (frame_rows df)))"
  by (simp add: to_csv_def comp_def)

lemma tokenize_to_csv:
  assumes "columns df \<noteq> []" and "list_all (\<lambda>r. length r = length (columns df)) (frame_rows df)"
  shows "tokenize Start_Field [] [] [] (to_csv df) = Inr (columns df # map (map na_rep) (frame_rows df))"
proof -
  have "list_all (\<lambda>c. c \<noteq> []) (columns df # map (map na_rep) (frame_rows df))"
    using assms by (auto simp: list_all_iff)
  from tokenize_csv_lines [OF this, of "[]" "[]"] show ?thesis by (simp add: to_csv_lines)
qed

lemma na_of_na_rep: "na_of (na_rep v) = Option.bind v na_of"
  by (cases v) (simp_all add: na_rep_def na_of_def)

subsection \<open>The round trip\<close>

lemma read_csv_written:
  assumes "columns df \<noteq> []" and "list_all (\<lambda>r. length r = length (columns df)) (frame_rows df)"
  shows "read_csv (to_csv df) =
    Inr \<lparr>columns = columns df, frame_rows = map (map (\<lambda>v. Option.bind v na_of)) (frame_rows df)\<rparr>"
proof -
  have "list_all (\<lambda>r. length r \<le> length (columns df)) (map (map na_rep) (frame_rows df))"
    using assms(2) by (simp add: list_all_iff)
  moreover have "map (\<lambda>r. map na_of r @ replicate (length (columns df) - length r) None)
      (map (map na_rep) (frame_rows df)) = map (map (\<lambda>v. Option.bind v na_of)) (frame_rows df)"
    using assms(2) by (simp add: list_all_iff na_of_na_rep comp_def)
  ultimately show ?thesis
    using assms by (simp add: read_csv_def tokenize_to_csv split: list.split)
qed

lemma read_csv_empty_frame: "read_csv (to_csv \<lparr>columns = [], frame_rows = []\<rparr>) = Inl EmptyDataError"
  by (simp add: read_csv_def to_csv_def csv_line_def csv_eol_def)

end
