(* ===== verification/Export.thy ===== *)
theory Export
  imports Csv Notary
begin

text \<open>
  The export sink of \<^verbatim>\<open>src/asyncNotary.py\<close>. \<^verbatim>\<open>format_notary\<close> (lines 80--93) projects
  each record to a row of the five columns \<^verbatim>\<open>name, mail, phone, website, address\<close> (the keys
  of its dictionaries, in their order); \<^verbatim>\<open>main\<close> makes a data frame of the rows
  (\<^verbatim>\<open>pd.DataFrame\<close>, line 157, \<open>data_frame\<close>: no row gives a frame without columns) and writes
  it (line 158, \<open>to_csv\<close> of \<open>Csv\<close>); \<^verbatim>\<open>remove_empty_rows\<close> (lines 132--135) reads the file back,
  drops the rows whose every cell is missing (\<^verbatim>\<open>dropna(how='all')\<close>, \<open>dropna_all\<close>) and
  writes the frame again. A file is its text.
  The theorems give the cleaned file of every run: it raises \<open>EmptyDataError\<close> when there
  is no record, and otherwise holds the header and \<open>clean_rows\<close>, the rows with at least one
  cell pandas does not read as missing, each such cell blanked.
\<close>

type_synonym csv_row = "string list"

definition csv_header :: "string list" where
  "csv_header = [''name'', ''mail'', ''phone'', ''website'', ''address'']"

definition notary_truthy :: "notary \<Rightarrow> bool" where
  \<comment> \<open>\<^verbatim>\<open>if notary:\<close>: an instance of a class without \<^verbatim>\<open>__bool__\<close> or \<^verbatim>\<open>__len__\<close> is true\<close>
  "notary_truthy notary = True"

definition format_notary :: "notary list \<Rightarrow> csv_row list" where
  "format_notary notary_array =
     map (\<lambda>notary. [name notary, mail notary, phone notary, website notary, address notary])
       (filter notary_truthy notary_array)"

definition data_frame :: "csv_row list \<Rightarrow> frame" where
  "data_frame notary_data =
     \<lparr>columns = (if notary_data = [] then [] else csv_header), frame_rows = map (map Some) notary_data\<rparr>"

definition dropna_all :: "frame \<Rightarrow> frame" where
  "dropna_all df = \<lparr>columns = columns df, frame_rows = filter (\<lambda>r. \<not> list_all (\<lambda>v. v = None) r) (frame_rows df)\<rparr>"

definition remove_empty_rows :: "string \<Rightarrow> string result" where
  "remove_empty_rows csv_file = sbind (read_csv csv_file) (\<lambda>df. Inr (to_csv (dropna_all df)))"

definition clean_rows :: "csv_row list \<Rightarrow> string option list list" where
  "clean_rows rows = map (map na_of) (filter (\<lambda>r. \<not> list_all na_cell r) rows)"

lemma format_notary_map:
  "format_notary ns = map (\<lambda>n. [name n, mail n, phone n, website n, address n]) ns"
  by (simp add: format_notary_def notary_truthy_def)

lemma na_of_None: "na_of v = None \<longleftrightarrow> na_cell v"
  by (simp add: na_of_def)

lemma bind_na_of: "Option.bind (na_of v) na_of = na_of v"
  by (simp add: na_of_def)

subsection \<open>The cleaned file\<close>

lemma length_format_notary_rows: "list_all (\<lambda>r. length r = 5) (format_notary ns)"
  by (simp add: format_notary_map list_all_iff)

lemma dropna_clean_rows:
  "filter (\<lambda>r. \<not> list_all (\<lambda>v. v = None) r) (map (map na_of) rows) = clean_rows rows"
  by (induction rows) (simp_all add: clean_rows_def list_all_iff na_of_None)

lemma remove_empty_rows_frame:
  assumes "rows \<noteq> []" and "list_all (\<lambda>r. length r = 5) rows"
  shows "remove_empty_rows (to_csv (data_frame rows)) =
    Inr (to_csv \<lparr>columns = csv_header, frame_rows = clean_rows rows\<rparr>)"
proof -
  have "read_csv (to_csv (data_frame rows)) =
      Inr \<lparr>columns = csv_header, frame_rows = map (map na_of) rows\<rparr>"
    using read_csv_written [of "data_frame rows"] assms
    by (simp add: data_frame_def csv_header_def list_all_iff comp_def)
  then show ?thesis by (simp add: remove_empty_rows_def dropna_all_def dropna_clean_rows)
qed

lemma remove_empty_rows_format:
  "remove_empty_rows (to_csv (data_frame (format_notary ns))) =
     (if ns = [] then Inl EmptyDataError
      else Inr (to_csv \<lparr>columns = csv_header, frame_rows = clean_rows (format_notary ns)\<rparr>))"
proof (cases "ns = []")
  case True
  then show ?thesis
    using read_csv_empty_frame by (simp add: remove_empty_rows_def format_notary_map data_frame_def)
next
  case False
  then have "format_notary ns \<noteq> []" by (simp add: format_notary_map)
  with False show ?thesis by (simp add: remove_empty_rows_frame length_format_notary_rows)
qed

lemma clean_rows_shape:
  "list_all (\<lambda>r. length r = 5) rows \<Longrightarrow>
   list_all (\<lambda>r. length r = 5 \<and> list_ex (\<lambda>v. v \<noteq> None) r) (clean_rows rows)"
  by (induction rows) (auto simp: clean_rows_def list_all_iff list_ex_iff na_of_None)

lemma dropna_clean_idem:
  "filter (\<lambda>r. \<not> list_all (\<lambda>v. v = None) r) (clean_rows rows) = clean_rows rows"
  by (induction rows) (auto simp: clean_rows_def list_all_iff na_of_None)

lemma read_clean_file:
  "list_all (\<lambda>r. length r = 5) rows \<Longrightarrow>
   read_csv (to_csv \<lparr>columns = csv_header, frame_rows = clean_rows rows\<rparr>) =
     Inr \<lparr>columns = csv_header, frame_rows = clean_rows rows\<rparr>"
proof -
  assume w: "list_all (\<lambda>r. length r = 5) rows"
  have "map (map (\<lambda>v. Option.bind v na_of)) (clean_rows rows) = clean_rows rows"
    by (simp add: clean_rows_def comp_def bind_na_of)
  moreover have "list_all (\<lambda>r. length r = length csv_header) (clean_rows rows)"
    using clean_rows_shape [OF w] by (simp add: csv_header_def list_all_iff)
  ultimately show ?thesis
    using read_csv_written [of "\<lparr>columns = csv_header, frame_rows = clean_rows rows\<rparr>"]
    by (simp add: csv_header_def)
qed

text \<open>Records with a name pandas does not read as missing all survive the cleanup.\<close>

lemma clean_rows_named:
  "list_all (\<lambda>n. \<not> na_cell (name n)) ns \<Longrightarrow> length (clean_rows (format_notary ns)) = length ns"
  by (induction ns) (simp_all add: clean_rows_def format_notary_map)

lemma length_clean_rows: "length (clean_rows rows) \<le> length rows"
  by (simp add: clean_rows_def)

lemma export_read_back:
  assumes "remove_empty_rows (to_csv (data_frame (format_notary ns))) = Inr out"
  shows "ns \<noteq> [] \<and> out = to_csv \<lparr>columns = csv_header, frame_rows = clean_rows (format_notary ns)\<rparr> \<and>
    read_csv out = Inr \<lparr>columns = csv_header, frame_rows = clean_rows (format_notary ns)\<rparr>"
proof -
  from assms have ne: "ns \<noteq> []"
    and out: "out = to_csv \<lparr>columns = csv_header, frame_rows = clean_rows (format_notary ns)\<rparr>"
    by (simp_all add: remove_empty_rows_format split: if_splits)
  moreover have "read_csv out = Inr \<lparr>columns = csv_header, frame_rows = clean_rows (format_notary ns)\<rparr>"
    unfolding out by (rule read_clean_file [OF length_format_notary_rows])
  ultimately show ?thesis by blast
qed

subsection \<open>Properties of the export\<close>

text \<open>(C12) The file \<^verbatim>\<open>main\<close> leaves: writing the records and cleaning the file
  raises \<open>EmptyDataError\<close> when there is no record (the frame has no column, the file is a
  bare line break), and otherwise gives the header and the rows with at least one cell
  pandas does not read as missing, in order, such cells blanked.\<close>

theorem export_file:
  "remove_empty_rows (to_csv (data_frame (format_notary ns))) =
     (if ns = [] then Inl EmptyDataError
      else Inr (to_csv \<lparr>columns = csv_header, frame_rows = clean_rows (format_notary ns)\<rparr>))"
  by (rule remove_empty_rows_format)

text \<open>(C20) Read back, the cleaned file has the five columns, every row has five
  cells and at least one of them present, and the cleanup is idempotent.\<close>

theorem export_rows_shape:
  assumes "remove_empty_rows (to_csv (data_frame (format_notary ns))) = Inr out"
  shows "\<exists>rows. read_csv out = Inr \<lparr>columns = csv_header, frame_rows = rows\<rparr> \<and>
    list_all (\<lambda>r. length r = 5 \<and> list_ex (\<lambda>v. v \<noteq> None) r) rows \<and> length rows \<le> length ns \<and>
    remove_empty_rows out = Inr out"
proof -
  from export_read_back [OF assms] have
    out: "out = to_csv \<lparr>columns = csv_header, frame_rows = clean_rows (format_notary ns)\<rparr>"
    and r: "read_csv out = Inr \<lparr>columns = csv_header, frame_rows = clean_rows (format_notary ns)\<rparr>"
    by blast+
  moreover have "length (clean_rows (format_notary ns)) \<le> length ns"
    using length_clean_rows [of "format_notary ns"] by (simp add: format_notary_map)
  moreover have "remove_empty_rows out = Inr out"
    using r by (simp add: remove_empty_rows_def dropna_all_def dropna_clean_idem out)
  ultimately show ?thesis
    using clean_rows_shape [OF length_format_notary_rows [of ns]] by blast
qed

text \<open>An instance of the file theorem above: the cleanup pass does more than delete fully
  empty rows: a row whose only non-empty cells are strings pandas reads as missing
  (\<^verbatim>\<open>"NA"\<close>, \<^verbatim>\<open>"None"\<close>, \<^verbatim>\<open>"null"\<close>, ...) is deleted too, and in a kept row such a cell is
  blanked.\<close>

lemma remove_empty_rows_na_loss:
  "remove_empty_rows (to_csv (data_frame [[''NA'', '''', '''', '''', ''''],
      [''None'', ''a@b.fr'', '''', '''', ''''], ['''', '''', '''', '''', '''']])) =
   Inr (to_csv \<lparr>columns = csv_header, frame_rows = [[None, Some ''a@b.fr'', None, None, None]]\<rparr>)"
  by (simp add: remove_empty_rows_def data_frame_def csv_header_def to_csv_def csv_line_def
      csv_field_def csv_special_def csv_quote_def csv_eol_def read_csv_def na_of_def na_cell_def
      pandas_na_values_def na_rep_def dropna_all_def)

end
