(* ===== verification/EventLoop.thy ===== *)
theory EventLoop
  imports Prelude
begin

text \<open>
  The completion loop of \<^verbatim>\<open>get_endpoints\<close> (\<^verbatim>\<open>src/asyncNotary.py\<close>, lines 26--29):
  \<^verbatim>\<open>for task in asyncio.as_completed(tasks): soup = await task; endpoints.append(soup)\<close>.
  Each task's eventual outcome is known when it is created (a parsed page or the exception
  of its fetch); what the event loop decides is the order in which the tasks complete.
  \<^item> \<open>as_completed order tasks\<close> is the functional model \<^verbatim>\<open>get_endpoints\<close> uses: the event
    loop's choice is a permutation \<open>order\<close> of the task indices, and the loop consumes the
    tasks in that order.
  \<^item> \<open>await_step\<close> is the same loop as a step relation on \<open>loop_state\<close>: while tasks are
    pending (\<open>Awaiting pending endpoints\<close>), any one of them completes next; a page is
    appended to \<^verbatim>\<open>endpoints\<close>, an exception is re-raised by \<^verbatim>\<open>await\<close> and ends the loop
    (\<open>Raised\<close>). \<open>loop_outcome\<close> reads the outcome of a final state.
  The theorems show that every reachable state accounts for every task exactly once, and
  that the outcomes of the step relation are exactly the outcomes of \<open>as_completed\<close> under
  the permutations of the task indices.
\<close>

definition as_completed :: "nat list \<Rightarrow> 'a list \<Rightarrow> 'a list" where
  "as_completed order tasks = map (\<lambda>i. tasks ! i) order"

datatype 'a loop_state = Awaiting "'a result list" "'a list" | Raised py_error

inductive await_step :: "'a loop_state \<Rightarrow> 'a loop_state \<Rightarrow> bool" where
  await_ok: "await_step (Awaiting (ps @ Inr d # qs) es) (Awaiting (ps @ qs) (es @ [d]))"
| await_raise: "await_step (Awaiting (ps @ Inl e # qs) es) (Raised e)"

fun loop_outcome :: "'a loop_state \<Rightarrow> 'a list result option" where
  "loop_outcome (Awaiting [] es) = Some (Inr es)"
| "loop_outcome (Awaiting (t # ts) es) = None"
| "loop_outcome (Raised e) = Some (Inl e)"

definition loop_inv :: "'a result list \<Rightarrow> 'a loop_state \<Rightarrow> bool" where
  "loop_inv tasks s =
     (case s of Awaiting ps es \<Rightarrow> mset ps + mset (map Inr es) = mset tasks
      | Raised e \<Rightarrow> Inl e \<in> set tasks)"

inductive_cases await_step_Raised [elim!]: "await_step (Raised e) t"

subsection \<open>Completion orders are permutations\<close>

lemma mset_as_completed:
  "mset order = mset [0..<length tasks] \<Longrightarrow> mset (as_completed order tasks) = mset tasks"
proof -
  assume o: "mset order = mset [0..<length tasks]"
  have "mset (as_completed order tasks) = image_mset (\<lambda>i. tasks ! i) (mset order)"
    by (simp add: as_completed_def)
  also have "\<dots> = mset (map (\<lambda>i. tasks ! i) [0..<length tasks])" by (simp add: o)
  also have "\<dots> = mset tasks" by (simp add: map_nth)
  finally show ?thesis .
qed

lemma map_skip_upt:
  "k \<le> m \<Longrightarrow> map (\<lambda>i. if i < k then i else Suc i) [0..<m] = [0..<k] @ [Suc k..<Suc m]"
proof -
  assume k: "k \<le> m"
  then have split: "[0..<m] = [0..<k] @ [k..<m]"
    using upt_add_eq_append [of 0 k "m - k"] by simp
  have a: "map (\<lambda>i. if i < k then i else Suc i) [0..<k] = [0..<k]" by (rule map_idI) simp
  have "map (\<lambda>i. if i < k then i else Suc i) [k..<m] = map Suc [k..<m]" by (rule map_cong) simp_all
  then have b: "map (\<lambda>i. if i < k then i else Suc i) [k..<m] = [Suc k..<Suc m]" by (simp add: map_Suc_upt)
  show ?thesis unfolding split by (simp only: map_append a b)
qed

lemma mset_insert_upt:
  "k \<le> m \<Longrightarrow> mset (k # [0..<k] @ [Suc k..<Suc m]) = mset [0..<Suc m]"
proof -
  assume k: "k \<le> m"
  then have "[0..<Suc m] = [0..<k] @ [k..<Suc m]"
    using upt_add_eq_append [of 0 k "Suc m - k"] by simp
  also have "[k..<Suc m] = k # [Suc k..<Suc m]" using k by (simp add: upt_conv_Cons)
  finally show ?thesis by simp
qed

lemma nth_skip:
  "i < length as + length bs \<Longrightarrow>
   (as @ z # bs) ! (if i < length as then i else Suc i) = (as @ bs) ! i"
  by (auto simp: nth_append nth_Cons' Suc_diff_le not_less)

lemma perm_as_completed:
  "mset zs = mset ts \<Longrightarrow> \<exists>order. mset order = mset [0..<length ts] \<and> as_completed order ts = zs"
proof (induction zs arbitrary: ts)
  case Nil
  then show ?case by (simp add: as_completed_def)
next
  case (Cons z zs)
  then have "z \<in> set ts" by (metis list.set_intros(1) set_mset_mset)
  then obtain as bs where ts: "ts = as @ z # bs" by (auto dest: split_list)
  with Cons.prems have "mset zs = mset (as @ bs)" by simp
  from Cons.IH [OF this] obtain order' where
    o': "mset order' = mset [0..<length as + length bs]"
    and z': "as_completed order' (as @ bs) = zs" by auto
  define f where "f i = (if i < length as then i else Suc i)" for i
  have lt: "\<forall>i \<in> set order'. i < length as + length bs"
    using o' by (metis atLeastLessThan_iff set_mset_mset set_upt)
  have mf: "map (\<lambda>i. ts ! f i) order' = map (\<lambda>i. (as @ bs) ! i) order'"
  proof (rule map_cong)
    fix i assume "i \<in> set order'"
    with lt have "i < length as + length bs" by blast
    then show "ts ! f i = (as @ bs) ! i" unfolding ts f_def by (rule nth_skip)
  qed simp
  have tz: "ts ! length as = z" by (simp add: ts)
  have "as_completed (length as # map f order') ts = z # zs"
    using z' by (simp add: as_completed_def tz mf comp_def)
  moreover have "mset (length as # map f order') = mset [0..<length ts]"
  proof -
    have "mset (map f order') = mset (map f [0..<length as + length bs])"
      using o' by simp
    also have "map f [0..<length as + length bs] = [0..<length as] @ [Suc (length as)..<Suc (length as + length bs)]"
      unfolding f_def by (rule map_skip_upt) simp
    finally show ?thesis using mset_insert_upt [of "length as" "length as + length bs"]
      by (simp add: ts)
  qed
  ultimately show ?case by blast
qed

lemma as_completed_iff_perm:
  "(\<exists>order. mset order = mset [0..<length ts] \<and> as_completed order ts = zs) \<longleftrightarrow> mset zs = mset ts"
  using mset_as_completed perm_as_completed by blast

subsection \<open>Runs of the step relation\<close>

lemma await_step_progress: "loop_outcome s = None \<Longrightarrow> \<exists>t. await_step s t"
proof (cases s rule: loop_outcome.cases)
  case (2 t ts es)
  then show ?thesis
    using await_ok [of "[]" _ ts es] await_raise [of "[]" _ ts es] by (cases t) auto
qed auto

lemma await_step_inv: "await_step s t \<Longrightarrow> loop_inv tasks s \<Longrightarrow> loop_inv tasks t"
proof (induction rule: await_step.induct)
  case (await_ok ps d qs es)
  then show ?case by (simp add: loop_inv_def)
next
  case (await_raise ps e qs es)
  then have eq: "add_mset (Inl e) (mset ps + mset qs + mset (map Inr es)) = mset tasks"
    by (simp add: loop_inv_def)
  have "Inl e \<in># mset tasks" unfolding eq [symmetric] by simp
  then show ?case by (simp add: loop_inv_def)
qed

lemma await_run_outcome:
  "mset zs = mset ps \<Longrightarrow>
   \<exists>t. await_step\<^sup>*\<^sup>* (Awaiting ps es) t \<and>
       loop_outcome t = Some (sbind (map_result id zs) (\<lambda>ds. Inr (es @ ds)))"
proof (induction zs arbitrary: ps es)
  case Nil
  then show ?case by auto
next
  case (Cons z zs)
  then have "z \<in> set ps" by (metis list.set_intros(1) set_mset_mset)
  then obtain as bs where ps: "ps = as @ z # bs" by (auto dest: split_list)
  with Cons.prems have m: "mset zs = mset (as @ bs)" by simp
  show ?case
  proof (cases z)
    case (Inl e)
    have "await_step (Awaiting ps es) (Raised e)" unfolding ps Inl by (rule await_raise)
    then show ?thesis by (auto simp: Inl intro: r_into_rtranclp)
  next
    case (Inr d)
    from Cons.IH [OF m, of "es @ [d]"] obtain t where
      run: "await_step\<^sup>*\<^sup>* (Awaiting (as @ bs) (es @ [d])) t"
      and out: "loop_outcome t = Some (sbind (map_result id zs) (\<lambda>ds. Inr ((es @ [d]) @ ds)))"
      by blast
    have "await_step (Awaiting ps es) (Awaiting (as @ bs) (es @ [d]))"
      unfolding ps Inr by (rule await_ok)
    from this run have "await_step\<^sup>*\<^sup>* (Awaiting ps es) t" by (rule converse_rtranclp_into_rtranclp)
    moreover have "sbind (map_result id zs) (\<lambda>ds. Inr ((es @ [d]) @ ds)) =
        sbind (map_result id (z # zs)) (\<lambda>ds. Inr (es @ ds))"
      by (simp add: Inr sbind_def split: sum.split)
    ultimately show ?thesis using out by (metis (no_types, lifting))
  qed
qed

lemma await_outcome_run:
  "await_step\<^sup>*\<^sup>* s t \<Longrightarrow> loop_outcome t = Some r \<Longrightarrow>
   (case s of Awaiting ps es \<Rightarrow> \<exists>zs. mset zs = mset ps \<and> sbind (map_result id zs) (\<lambda>ds. Inr (es @ ds)) = r
    | Raised e \<Rightarrow> r = Inl e)"
proof (induction rule: converse_rtranclp_induct)
  case base
  then show ?case by (cases t rule: loop_outcome.cases) auto
next
  case (step s s')
  from step.hyps(1) show ?case
  proof cases
    case (await_ok as d bs es)
    with step.IH step.prems obtain zs where m: "mset zs = mset (as @ bs)"
      and r: "sbind (map_result id zs) (\<lambda>ds. Inr ((es @ [d]) @ ds)) = r" by auto
    from m have "mset (Inr d # zs) = mset (as @ Inr d # bs)" by simp
    moreover have "sbind (map_result id (Inr d # zs)) (\<lambda>ds. Inr (es @ ds)) = r"
      unfolding r [symmetric] by (simp add: sbind_def split: sum.split)
    ultimately show ?thesis unfolding await_ok(1) loop_state.case by blast
  next
    case (await_raise as e bs es)
    with step.IH step.prems have r: "r = Inl e" by auto
    have "mset (Inl e # as @ bs) = mset (as @ Inl e # bs)" by simp
    moreover have "sbind (map_result id (Inl e # as @ bs)) (\<lambda>ds. Inr (es @ ds)) = r" by (simp add: r)
    ultimately show ?thesis unfolding await_raise(1) loop_state.case by blast
  qed
qed

subsection \<open>Properties of the completion loop\<close>

text \<open>(C16) Every state the loop reaches from the task list accounts for every task
  exactly once: the pending tasks and the pages already appended make up the tasks, and a
  raised exception is the exception of one of the tasks.\<close>

theorem await_reachable_inv:
  "await_step\<^sup>*\<^sup>* (Awaiting tasks []) s \<Longrightarrow> loop_inv tasks s"
proof (induction rule: rtranclp_induct)
  case base
  then show ?case by (simp add: loop_inv_def)
next
  case (step s t)
  from step.hyps(2) step.IH show ?case by (rule await_step_inv)
qed

text \<open>(C11) The step-by-step event loop and the functional model of
  \<^verbatim>\<open>get_endpoints\<close> agree: the outcomes the loop can reach from the task list (the list of
  pages in completion order, or the exception raised) are exactly the outcomes of
  \<open>as_completed\<close> under the permutations of the task indices.\<close>

theorem await_loop_equiv:
  "(\<exists>t. await_step\<^sup>*\<^sup>* (Awaiting tasks []) t \<and> loop_outcome t = Some r) \<longleftrightarrow>
   (\<exists>order. mset order = mset [0..<length tasks] \<and> map_result id (as_completed order tasks) = r)"
proof
  assume "\<exists>t. await_step\<^sup>*\<^sup>* (Awaiting tasks []) t \<and> loop_outcome t = Some r"
  then obtain zs where "mset zs = mset tasks" and "map_result id zs = r"
    using await_outcome_run [where s = "Awaiting tasks []"] by (force simp: sbind_def split: sum.splits)
  then show "\<exists>order. mset order = mset [0..<length tasks] \<and> map_result id (as_completed order tasks) = r"
    using perm_as_completed by blast
next
  assume "\<exists>order. mset order = mset [0..<length tasks] \<and> map_result id (as_completed order tasks) = r"
  then obtain order where o: "mset order = mset [0..<length tasks]"
    and r: "map_result id (as_completed order tasks) = r" by blast
  from o have "mset (as_completed order tasks) = mset tasks" by (rule mset_as_completed)
  from await_run_outcome [OF this, of "[]"] r
  show "\<exists>t. await_step\<^sup>*\<^sup>* (Awaiting tasks []) t \<and> loop_outcome t = Some r"
    by (simp add: sbind_def split: sum.splits)
qed

end
