(* ===== verification/Crawl.thy ===== *)
theory Crawl
  imports Dedup Extractors Export EventLoop
begin

text \<open>
  The crawl orchestrator and the program's entry point, \<^verbatim>\<open>swoup\<close>, \<^verbatim>\<open>get_endpoints\<close> and
  \<^verbatim>\<open>main\<close> of \<^verbatim>\<open>src/asyncNotary.py\<close> (lines 10--30 and 138--162).
  \<^item> The module constants \<^verbatim>\<open>baseUrl\<close>, \<^verbatim>\<open>uri\<close>, \<^verbatim>\<open>pageNb\<close> are the record
    \<open>crawl_config\<close>, their values \<open>notaires_config\<close>.
  \<^item> The HTTP session is a function \<open>session\<close> from a URL to the parsed page or to the
    transport failure \<open>ClientError\<close>: \<^verbatim>\<open>swoup\<close> performs the GET and parses the body.
  \<^item> Concurrency: \<^verbatim>\<open>get_endpoints\<close> creates one task per card (computing every link first,
    so a malformed card raises before anything is awaited) and consumes them through
    \<^verbatim>\<open>asyncio.as_completed\<close>, in completion order. The event loop's choice of that order is
    the scheduler \<open>sched\<close>: for page \<open>p\<close> with \<open>n\<close> tasks, \<open>sched p n\<close> lists the task
    indices in completion order, a permutation of \<open>[0..<n]\<close> (\<open>valid_scheduler\<close>).
    \<open>EventLoop\<close> shows that these orders give exactly the outcomes of the loop run one
    completed task at a time. Awaiting a task that failed re-raises its exception.
  \<^item> \<open>crawl_page\<close> is one iteration of the page loop (lines 142--153), \<open>crawl_pages\<close>
    the loop over \<^verbatim>\<open>range(0, pageNb + 1)\<close> with the accumulated list \<^verbatim>\<open>notaries\<close> as its
    state, and \<open>main\<close> the whole run: crawl, deduplicate, project, write and clean the
    file, and the two counts it prints (\<open>run_output\<close>, the file being its final text). Any
    exception ends the run before the counts are printed: \<open>main\<close> returns it.
    \<open>run_script\<close> is the module's top level (lines 165--166): the Windows event-loop policy
    does not exist elsewhere. The progress bar and the timer are not modelled.
  \<^item> \<open>task_ok\<close>, \<open>page_ok\<close>, \<open>site_ok\<close> state when a site is well-formed; on such a site
    every run returns.
\<close>

record crawl_config =
  base_url :: string
  uri :: string
  page_nb :: nat

definition notaires_config :: crawl_config where
  "notaires_config =
     \<lparr>base_url = ''https://www.notaires.fr'',
      uri = ''/fr/directory/notaries?location=lyon&lat=45.758&lon=4.835&page='', page_nb = 10\<rparr>"

type_synonym session = "string \<Rightarrow> node result"

type_synonym scheduler = "nat \<Rightarrow> nat \<Rightarrow> nat list"

definition swoup :: "session \<Rightarrow> string \<Rightarrow> node result" where
  "swoup session url = session url"

definition card_link :: "node \<Rightarrow> string result" where
  "card_link article =
     sbind (py_find (Some article) ''a'' (Some ''arrow-link'')) (\<lambda>a.
     sbind (py_getitem a ''href'') (\<lambda>href.
     sbind (py_split href ''?'') py_first))"

definition valid_scheduler :: "scheduler \<Rightarrow> bool" where
  "valid_scheduler sched \<longleftrightarrow> (\<forall>p n. mset (sched p n) = mset [0..<n])"

definition get_endpoints :: "crawl_config \<Rightarrow> session \<Rightarrow> nat list \<Rightarrow> node list \<Rightarrow> node list result" where
  "get_endpoints cfg session order cards =
     sbind (map_result (\<lambda>article. sbind (card_link article) (\<lambda>link.
              Inr (swoup session (base_url cfg @ link)))) cards) (\<lambda>tasks.
     map_result id (as_completed order tasks))"

definition extract_notary :: "node \<Rightarrow> notary result" where
  "extract_notary endpoint =
     sbind (get_name endpoint) (\<lambda>nom.
     sbind (get_phone endpoint) (\<lambda>phone.
     sbind (get_mail endpoint) (\<lambda>mail.
     sbind (get_website endpoint) (\<lambda>website.
     sbind (get_address endpoint) (\<lambda>address.
     Inr (make_notary nom phone mail website address))))))"

definition listing_url :: "crawl_config \<Rightarrow> nat \<Rightarrow> string" where
  "listing_url cfg page = base_url cfg @ uri cfg @ py_str_nat page"

definition find_cards :: "node \<Rightarrow> node list" where
  "find_cards soup = find_all_in soup ''article'' (Some ''notary-card notary-card--notary'')"

definition crawl_page :: "crawl_config \<Rightarrow> session \<Rightarrow> scheduler \<Rightarrow> nat \<Rightarrow> notary list result" where
  "crawl_page cfg session sched page =
     sbind (swoup session (listing_url cfg page)) (\<lambda>soup.
     let cards = find_cards soup in
     sbind (get_endpoints cfg session (sched page (length cards)) cards) (\<lambda>endpoints.
     map_result extract_notary endpoints))"

fun crawl_pages :: "crawl_config \<Rightarrow> session \<Rightarrow> scheduler \<Rightarrow> nat list \<Rightarrow> notary list \<Rightarrow>
    notary list result" where
  "crawl_pages cfg session sched [] notaries = Inr notaries"
| "crawl_pages cfg session sched (page # pages) notaries =
     sbind (crawl_page cfg session sched page) (\<lambda>found.
     crawl_pages cfg session sched pages (notaries @ found))"

record run_output =
  csv_file :: string
  n_notaries :: nat
  n_sorted :: nat

definition main :: "crawl_config \<Rightarrow> session \<Rightarrow> scheduler \<Rightarrow> run_output result" where
  "main cfg session sched =
     sbind (crawl_pages cfg session sched [0..<page_nb cfg + 1] []) (\<lambda>notaries.
     sbind (sort_notaries notaries) (\<lambda>sorted_notaries.
     sbind (remove_empty_rows (to_csv (data_frame (format_notary sorted_notaries)))) (\<lambda>csv_file.
     Inr \<lparr>csv_file = csv_file, n_notaries = length notaries, n_sorted = length sorted_notaries\<rparr>)))"

datatype platform = Windows | Posix

definition run_script :: "platform \<Rightarrow> crawl_config \<Rightarrow> session \<Rightarrow> scheduler \<Rightarrow> run_output result" where
  \<comment> \<open>\<^verbatim>\<open>asyncio.WindowsSelectorEventLoopPolicy\<close> exists on Windows only\<close>
  "run_script platform cfg session sched =
     (if platform = Windows then main cfg session sched else Inl AttributeError)"

text \<open>The conditions under which a run succeeds: a fetched detail page whose five fields
  extract without exception and whose name is not blank (\<open>task_ok\<close>); a listing page that
  is fetched and whose every card has a link to such a detail page (\<open>page_ok\<close>); a site
  whose every listing page in the range is so and which has at least one card
  (\<open>site_ok\<close>).\<close>

definition task_ok :: "node result \<Rightarrow> bool" where
  "task_ok t =
     (case t of Inl e \<Rightarrow> False
      | Inr d \<Rightarrow> (case extract_notary d of Inl e \<Rightarrow> False | Inr n \<Rightarrow> \<not> blank_name n))"

definition page_ok :: "crawl_config \<Rightarrow> session \<Rightarrow> nat \<Rightarrow> bool" where
  "page_ok cfg session p =
     (case swoup session (listing_url cfg p) of
        Inl e \<Rightarrow> False
      | Inr soup \<Rightarrow> list_all (\<lambda>c. case card_link c of Inl e \<Rightarrow> False
                                   | Inr l \<Rightarrow> task_ok (session (base_url cfg @ l))) (find_cards soup))"

definition page_cards :: "crawl_config \<Rightarrow> session \<Rightarrow> nat \<Rightarrow> nat" where
  "page_cards cfg session p =
     (case swoup session (listing_url cfg p) of Inl e \<Rightarrow> 0 | Inr soup \<Rightarrow> length (find_cards soup))"

definition site_ok :: "crawl_config \<Rightarrow> session \<Rightarrow> bool" where
  "site_ok cfg session \<longleftrightarrow> list_all (page_ok cfg session) [0..<page_nb cfg + 1] \<and>
     0 < sum_list (map (page_cards cfg session) [0..<page_nb cfg + 1])"


subsection \<open>The page loop\<close>

lemma crawl_pages_eq:
  "crawl_pages cfg session sched pages notaries =
     sbind (map_result (crawl_page cfg session sched) pages) (\<lambda>found. Inr (notaries @ concat found))"
  by (induction pages arbitrary: notaries) (auto simp: sbind_def split: sum.split)

lemma get_endpoints_links:
  "get_endpoints cfg session order cards =
     sbind (map_result card_link cards) (\<lambda>links.
     map_result id (as_completed order (map (\<lambda>link. swoup session (base_url cfg @ link)) links)))"
  by (simp add: get_endpoints_def map_result_sbind_Inr sbind_assoc)

lemma get_endpoints_sched:
  assumes "mset o1 = mset [0..<length cards]" and "mset o2 = mset [0..<length cards]"
    and "get_endpoints cfg session o1 cards = Inr es1"
  shows "\<exists>es2. get_endpoints cfg session o2 cards = Inr es2 \<and> mset es2 = mset es1"
proof -
  from assms(3) obtain tasks where
    t: "map_result (\<lambda>article. sbind (card_link article) (\<lambda>link. Inr (swoup session (base_url cfg @ link)))) cards = Inr tasks"
    and e1: "map_result id (as_completed o1 tasks) = Inr es1"
    by (auto simp: get_endpoints_def sbind_eq_Inr)
  from t have len: "length tasks = length cards" by (rule map_result_Inr_length)
  have "mset (as_completed o2 tasks) = mset (as_completed o1 tasks)"
    using assms(1,2) len by (simp add: mset_as_completed)
  from map_result_perm [OF this e1] t show ?thesis by (simp add: get_endpoints_def)
qed

lemma crawl_page_sched:
  assumes "valid_scheduler s1" and "valid_scheduler s2" and "crawl_page cfg session s1 p = Inr ns1"
  shows "\<exists>ns2. crawl_page cfg session s2 p = Inr ns2 \<and> mset ns2 = mset ns1"
proof -
  from assms(3) obtain soup es1 where
    soup: "swoup session (listing_url cfg p) = Inr soup"
    and e1: "get_endpoints cfg session (s1 p (length (find_cards soup))) (find_cards soup) = Inr es1"
    and n1: "map_result extract_notary es1 = Inr ns1"
    by (auto simp: crawl_page_def sbind_eq_Inr Let_def)
  from assms(1,2) have "mset (s1 p (length (find_cards soup))) = mset [0..<length (find_cards soup)]"
    and "mset (s2 p (length (find_cards soup))) = mset [0..<length (find_cards soup)]"
    by (simp_all add: valid_scheduler_def)
  from get_endpoints_sched [OF this e1] obtain es2 where
    e2: "get_endpoints cfg session (s2 p (length (find_cards soup))) (find_cards soup) = Inr es2"
    and "mset es2 = mset es1" by blast
  from map_result_perm [OF this(2) n1] obtain ns2 where
    "map_result extract_notary es2 = Inr ns2" and "mset ns2 = mset ns1" by blast
  with soup e2 show ?thesis by (auto simp: crawl_page_def Let_def)
qed

lemma crawl_pages_sched:
  assumes "valid_scheduler s1" and "valid_scheduler s2"
    and "map_result (crawl_page cfg session s1) pages = Inr nss1"
  shows "\<exists>nss2. map_result (crawl_page cfg session s2) pages = Inr nss2 \<and>
           mset (concat nss2) = mset (concat nss1)"
  using assms(3)
proof (induction pages arbitrary: nss1)
  case Nil
  then show ?case by simp
next
  case (Cons p pages)
  then obtain ns1 rest1 where p1: "crawl_page cfg session s1 p = Inr ns1"
    and r1: "map_result (crawl_page cfg session s1) pages = Inr rest1" and nss1: "nss1 = ns1 # rest1"
    by (auto simp: sbind_eq_Inr)
  from crawl_page_sched [OF assms(1,2) p1] obtain ns2 where
    "crawl_page cfg session s2 p = Inr ns2" "mset ns2 = mset ns1" by blast
  moreover from Cons.IH [OF r1] obtain rest2 where
    "map_result (crawl_page cfg session s2) pages = Inr rest2" "mset (concat rest2) = mset (concat rest1)"
    by blast
  ultimately show ?case by (simp add: nss1)
qed


lemma crawl_page_Inr:
  assumes "crawl_page cfg session sched p = Inr ns"
  obtains soup es where "swoup session (listing_url cfg p) = Inr soup"
    and "get_endpoints cfg session (sched p (length (find_cards soup))) (find_cards soup) = Inr es"
    and "map_result extract_notary es = Inr ns"
  using assms by (auto simp: crawl_page_def sbind_eq_Inr Let_def)

lemma get_endpoints_length:
  assumes "mset order = mset [0..<length cards]" and "get_endpoints cfg session order cards = Inr es"
  shows "length es = length cards"
proof -
  from assms(2) obtain tasks where
    t: "map_result (\<lambda>article. sbind (card_link article) (\<lambda>link. Inr (swoup session (base_url cfg @ link)))) cards = Inr tasks"
    and e: "map_result id (as_completed order tasks) = Inr es"
    by (auto simp: get_endpoints_def sbind_eq_Inr)
  have "length es = length order"
    using map_result_Inr_length [OF e] by (simp add: as_completed_def)
  also have "\<dots> = length cards" using arg_cong [OF assms(1), of size] by simp
  finally show ?thesis .
qed

lemma main_Inr:
  assumes "main cfg session sched = Inr out"
  obtains ns sn where "crawl_pages cfg session sched [0..<page_nb cfg + 1] [] = Inr ns"
    and "sort_notaries ns = Inr sn"
    and "remove_empty_rows (to_csv (data_frame (format_notary sn))) = Inr (csv_file out)"
    and "n_notaries out = length ns" and "n_sorted out = length sn"
  using assms by (auto simp: main_def sbind_eq_Inr)

lemma length_sort_notaries:
  "sort_notaries ns = Inr sn \<Longrightarrow> length sn = card (set (map notary_key ns))"
  by (simp add: sort_notaries_Inr dedup_spec_def length_remdups_card_conv)

subsection \<open>Runs that succeed\<close>

lemma extract_tasks:
  "list_all task_ok zs \<Longrightarrow>
   \<exists>es ns. map_result id zs = Inr es \<and> map_result extract_notary es = Inr ns \<and>
     list_all (\<lambda>n. \<not> blank_name n) ns \<and> length ns = length zs"
  by (induction zs) (auto simp: task_ok_def split: sum.splits)

lemma card_ok_link:
  "list_all (\<lambda>c. case card_link c of Inl e \<Rightarrow> False | Inr l \<Rightarrow> task_ok (session (base_url cfg @ l))) cards \<Longrightarrow>
   c \<in> set cards \<Longrightarrow> \<exists>l. card_link c = Inr l \<and> task_ok (session (base_url cfg @ l))"
proof -
  assume "list_all (\<lambda>c. case card_link c of Inl e \<Rightarrow> False | Inr l \<Rightarrow> task_ok (session (base_url cfg @ l))) cards"
    and "c \<in> set cards"
  then have "case card_link c of Inl e \<Rightarrow> False | Inr l \<Rightarrow> task_ok (session (base_url cfg @ l))"
    by (simp add: list_all_iff)
  then show ?thesis by (cases "card_link c") simp_all
qed

lemma crawl_page_ok:
  assumes ok: "page_ok cfg session p" and v: "valid_scheduler sched"
  shows "\<exists>ns. crawl_page cfg session sched p = Inr ns \<and> list_all (\<lambda>n. \<not> blank_name n) ns \<and>
    length ns = page_cards cfg session p"
proof -
  from ok obtain soup where s: "swoup session (listing_url cfg p) = Inr soup"
    and cs: "list_all (\<lambda>c. case card_link c of Inl e \<Rightarrow> False
                         | Inr l \<Rightarrow> task_ok (session (base_url cfg @ l))) (find_cards soup)"
    by (auto simp: page_ok_def split: sum.splits)
  define tasks where "tasks = map (\<lambda>c. session (base_url cfg @ projr (card_link c))) (find_cards soup)"
  have t: "map_result (\<lambda>article. sbind (card_link article) (\<lambda>link. Inr (swoup session (base_url cfg @ link))))
      (find_cards soup) = Inr tasks"
    unfolding tasks_def
  proof (rule map_result_map)
    fix c assume "c \<in> set (find_cards soup)"
    from card_ok_link [OF cs this] obtain l where "card_link c = Inr l" by blast
    then show "sbind (card_link c) (\<lambda>link. Inr (swoup session (base_url cfg @ link))) =
        Inr (session (base_url cfg @ projr (card_link c)))" by (simp add: swoup_def)
  qed
  have good: "list_all task_ok tasks"
    unfolding tasks_def list_all_iff
  proof
    fix t assume "t \<in> set (map (\<lambda>c. session (base_url cfg @ projr (card_link c))) (find_cards soup))"
    then obtain c where c: "c \<in> set (find_cards soup)"
      and t: "t = session (base_url cfg @ projr (card_link c))" by auto
    from card_ok_link [OF cs c] show "task_ok t" unfolding t by auto
  qed
  let ?order = "sched p (length (find_cards soup))"
  have o: "mset ?order = mset [0..<length tasks]" using v by (simp add: valid_scheduler_def tasks_def)
  then have "mset (as_completed ?order tasks) = mset tasks" by (rule mset_as_completed)
  then have "set (as_completed ?order tasks) = set tasks" by (metis set_mset_mset)
  with good have "list_all task_ok (as_completed ?order tasks)" by (simp add: list_all_iff)
  from extract_tasks [OF this] obtain es ns where
    e: "map_result id (as_completed ?order tasks) = Inr es" and n: "map_result extract_notary es = Inr ns"
    and nb: "list_all (\<lambda>n. \<not> blank_name n) ns" and len: "length ns = length (as_completed ?order tasks)"
    by blast
  have "length (as_completed ?order tasks) = length (find_cards soup)"
    using arg_cong [OF o, of size] by (simp add: as_completed_def tasks_def)
  with len have "length ns = page_cards cfg session p" by (simp add: page_cards_def s)
  moreover have "crawl_page cfg session sched p = Inr ns"
    using s t e n by (simp add: crawl_page_def get_endpoints_def Let_def)
  ultimately show ?thesis using nb by blast
qed

lemma crawl_pages_ok:
  "list_all (page_ok cfg session) pages \<Longrightarrow> valid_scheduler sched \<Longrightarrow>
   \<exists>nss. map_result (crawl_page cfg session sched) pages = Inr nss \<and>
     list_all (\<lambda>n. \<not> blank_name n) (concat nss) \<and>
     length (concat nss) = sum_list (map (page_cards cfg session) pages)"
proof (induction pages)
  case Nil
  then show ?case by simp
next
  case (Cons p ps)
  from Cons.prems(1) have p: "page_ok cfg session p" and ps: "list_all (page_ok cfg session) ps"
    by simp_all
  from crawl_page_ok [OF p Cons.prems(2)] obtain ns where
    "crawl_page cfg session sched p = Inr ns" "list_all (\<lambda>n. \<not> blank_name n) ns"
    "length ns = page_cards cfg session p" by blast
  moreover from Cons.IH [OF ps Cons.prems(2)] obtain nss where
    "map_result (crawl_page cfg session sched) ps = Inr nss"
    "list_all (\<lambda>n. \<not> blank_name n) (concat nss)"
    "length (concat nss) = sum_list (map (page_cards cfg session) ps)" by blast
  ultimately show ?case by (intro exI [of _ "ns # nss"]) simp
qed

lemma dedup_spec_Nil_iff: "dedup_spec ns = [] \<longleftrightarrow> ns = []"
proof
  assume "dedup_spec ns = []"
  then have "length (dedup_spec ns) = 0" by simp
  then have "length (remdups (map notary_key ns)) = 0" by (simp only: dedup_spec_def length_map length_sort)
  then show "ns = []" by simp
next
  assume "ns = []"
  then show "dedup_spec ns = []" by (simp add: dedup_spec_def)
qed

subsection \<open>Properties of the crawl\<close>

text \<open>(C17) A listing page that is crawled without exception contributes exactly
  one candidate record per listing card: nothing is deduplicated or lost at this stage,
  whatever the completion order.\<close>

theorem crawl_page_one_per_card:
  assumes "valid_scheduler sched" and "swoup session (listing_url cfg p) = Inr soup"
    and "crawl_page cfg session sched p = Inr ns"
  shows "length ns = length (find_cards soup)"
proof -
  from assms(3) obtain soup' es where "swoup session (listing_url cfg p) = Inr soup'"
    and e: "get_endpoints cfg session (sched p (length (find_cards soup'))) (find_cards soup') = Inr es"
    and n: "map_result extract_notary es = Inr ns"
    by (rule crawl_page_Inr)
  with assms(2) have soup': "soup' = soup" by simp
  from assms(1) have "mset (sched p (length (find_cards soup))) = mset [0..<length (find_cards soup)]"
    by (simp add: valid_scheduler_def)
  from get_endpoints_length [OF this] e soup' have "length es = length (find_cards soup)" by simp
  with map_result_Inr_length [OF n] show ?thesis by simp
qed

text \<open>(C3) The completion order chosen by the event loop does not decide whether
  the crawl succeeds, nor which candidate records it collects: under any two schedulers the
  crawl of the same pages either fails under both or returns the same records, possibly in
  another order.\<close>

theorem crawl_pages_schedule:
  assumes "valid_scheduler s1" and "valid_scheduler s2"
    and "crawl_pages cfg session s1 pages [] = Inr ns1"
  shows "\<exists>ns2. crawl_pages cfg session s2 pages [] = Inr ns2 \<and> mset ns2 = mset ns1"
proof -
  from assms(3) obtain nss1 where m1: "map_result (crawl_page cfg session s1) pages = Inr nss1"
    and ns1: "ns1 = concat nss1"
    by (auto simp: crawl_pages_eq sbind_eq_Inr)
  from crawl_pages_sched [OF assms(1,2) m1] obtain nss2 where
    "map_result (crawl_page cfg session s2) pages = Inr nss2" "mset (concat nss2) = mset (concat nss1)"
    by blast
  then show ?thesis by (simp add: crawl_pages_eq ns1)
qed

text \<open>(C18) The two counts the program prints, candidate records and records after
  deduplication, do not depend on the completion order of the fetches.\<close>

theorem main_schedule_counts:
  assumes "valid_scheduler s1" and "valid_scheduler s2"
    and "main cfg session s1 = Inr o1" and "main cfg session s2 = Inr o2"
  shows "n_notaries o1 = n_notaries o2 \<and> n_sorted o1 = n_sorted o2"
proof -
  from assms(3) obtain ns1 sn1 where c1: "crawl_pages cfg session s1 [0..<page_nb cfg + 1] [] = Inr ns1"
    and d1: "sort_notaries ns1 = Inr sn1" and "remove_empty_rows (to_csv (data_frame (format_notary sn1))) = Inr (csv_file o1)"
    and o1: "n_notaries o1 = length ns1" "n_sorted o1 = length sn1" by (rule main_Inr)
  from assms(4) obtain ns2 sn2 where c2: "crawl_pages cfg session s2 [0..<page_nb cfg + 1] [] = Inr ns2"
    and d2: "sort_notaries ns2 = Inr sn2" and "remove_empty_rows (to_csv (data_frame (format_notary sn2))) = Inr (csv_file o2)"
    and o2: "n_notaries o2 = length ns2" "n_sorted o2 = length sn2" by (rule main_Inr)
  from c1 obtain nss1 where m1: "map_result (crawl_page cfg session s1) [0..<page_nb cfg + 1] = Inr nss1"
    and ns1: "ns1 = concat nss1" by (auto simp: crawl_pages_eq sbind_eq_Inr)
  from crawl_pages_sched [OF assms(1,2) m1] c2 have "mset ns2 = mset ns1"
    by (auto simp: crawl_pages_eq ns1)
  then have "length ns1 = length ns2" and "set (map notary_key ns1) = set (map notary_key ns2)"
    by (metis size_mset, metis set_map set_mset_mset)
  with d1 d2 o1 o2 show ?thesis by (simp add: length_sort_notaries)
qed

text \<open>(C4) The run is fail-fast: when the listing pages before page \<open>p\<close> are
  crawled without exception and page \<open>p\<close> (within the fixed range) raises, whether by a
  transport failure of any of its fetches or by an extractor, the whole run raises that
  exception and writes nothing.\<close>

theorem main_first_failure:
  assumes "p \<le> page_nb cfg" and "\<forall>q < p. \<exists>ns. crawl_page cfg session sched q = Inr ns"
    and "crawl_page cfg session sched p = Inl e"
  shows "main cfg session sched = Inl e"
proof -
  have "map_result (crawl_page cfg session sched) [0..<page_nb cfg + 1] = Inl e"
    using assms by (auto simp: map_result_Inl simp del: upt_Suc intro!: exI [of _ p])
  then show ?thesis by (simp add: main_def crawl_pages_eq)
qed

text \<open>(C19) A completed run prints at most as many deduplicated records as
  candidates, and writes at most as many rows as deduplicated records.\<close>

theorem main_bounds:
  assumes "main cfg session sched = Inr out"
  shows "n_sorted out \<le> n_notaries out \<and>
    (\<exists>rows. read_csv (csv_file out) = Inr \<lparr>columns = csv_header, frame_rows = rows\<rparr> \<and>
       length rows \<le> n_sorted out)"
proof -
  from assms obtain ns sn where "crawl_pages cfg session sched [0..<page_nb cfg + 1] [] = Inr ns"
    and d: "sort_notaries ns = Inr sn"
    and f: "remove_empty_rows (to_csv (data_frame (format_notary sn))) = Inr (csv_file out)"
    and n1: "n_notaries out = length ns" and n2: "n_sorted out = length sn" by (rule main_Inr)
  from d have "length sn \<le> length ns"
    by (simp add: length_sort_notaries card_length [of "map notary_key ns", simplified])
  moreover from export_read_back [OF f] have
    "read_csv (csv_file out) = Inr \<lparr>columns = csv_header, frame_rows = clean_rows (format_notary sn)\<rparr>"
    by blast
  moreover have "length (clean_rows (format_notary sn)) \<le> length sn"
    using length_clean_rows [of "format_notary sn"] by (simp add: format_notary_map)
  ultimately show ?thesis using n1 n2 by auto
qed

text \<open>(C13) A run that collects no record at all (every listing page without a
  card) does not leave a file with the header only: \<^verbatim>\<open>pd.DataFrame([])\<close> has no column,
  its file is a bare line break, and reading it back in \<^verbatim>\<open>remove_empty_rows\<close> raises
  \<open>EmptyDataError\<close>, so the run ends with that exception and prints no count.\<close>

theorem main_no_records:
  assumes "crawl_pages cfg session sched [0..<page_nb cfg + 1] [] = Inr []"
  shows "main cfg session sched = Inl EmptyDataError"
proof -
  have "sort_notaries [] = Inr []" by (simp add: sort_notaries_def)
  then show ?thesis
    using assms remove_empty_rows_format [of "[]"] by (simp add: main_def)
qed

text \<open>(C32) The listing pages are fetched at pairwise distinct URLs: \<^verbatim>\<open>str(page)\<close>
  is injective, so no page is fetched twice and none is skipped.\<close>

theorem listing_url_inj: "listing_url cfg p = listing_url cfg q \<longleftrightarrow> p = q"
  by (simp add: listing_url_def py_str_nat_inj)

text \<open>(C14) A card without a link raises before any detail page is awaited: when the
  listing page is fetched and the link of one of its cards cannot be read (no
  \<^verbatim>\<open>arrow-link\<close> anchor, no \<^verbatim>\<open>href\<close>), the page raises the exception of the first such card in
  document order, whatever the completion order and whatever the detail fetches give.\<close>

theorem crawl_page_link_error:
  assumes "swoup session (listing_url cfg p) = Inr soup"
    and "map_result card_link (find_cards soup) = Inl e"
  shows "crawl_page cfg session sched p = Inl e"
  using assms by (simp add: crawl_page_def get_endpoints_links)

text \<open>(C15) The page loop with its accumulator computes the reference crawl: every page in
  turn, the first exception stopping the loop, and otherwise the records of the pages
  appended to the accumulator in page order.\<close>

theorem crawl_pages_concat:
  "crawl_pages cfg session sched pages notaries =
     sbind (map_result (crawl_page cfg session sched) pages) (\<lambda>found. Inr (notaries @ concat found))"
  by (rule crawl_pages_eq)

text \<open>(C10) A run on a well-behaved site succeeds, whatever the completion order: if
  every listing page of the range is fetched, every card has a link, every detail page is
  fetched and its fields extract without exception and with a non-blank name, and there is
  at least one card, then \<^verbatim>\<open>main\<close> returns, with one candidate record per card.\<close>

theorem main_succeeds:
  assumes "site_ok cfg session" and "valid_scheduler sched"
  shows "\<exists>out. main cfg session sched = Inr out \<and>
    n_notaries out = sum_list (map (page_cards cfg session) [0..<page_nb cfg + 1])"
proof -
  let ?pages = "[0..<page_nb cfg + 1]"
  from assms(1) have pk: "list_all (page_ok cfg session) ?pages"
    and pos: "0 < sum_list (map (page_cards cfg session) ?pages)" by (simp_all add: site_ok_def)
  from crawl_pages_ok [OF pk assms(2)] obtain nss where
    m: "map_result (crawl_page cfg session sched) ?pages = Inr nss"
    and nb: "list_all (\<lambda>n. \<not> blank_name n) (concat nss)"
    and len: "length (concat nss) = sum_list (map (page_cards cfg session) ?pages)" by blast
  have c: "crawl_pages cfg session sched ?pages [] = Inr (concat nss)"
    using m by (simp add: crawl_pages_eq)
  have d: "sort_notaries (concat nss) = Inr (dedup_spec (concat nss))"
    using nb by (simp add: sort_notaries_eq no_blank_not_raises)
  have "0 < length (concat nss)" unfolding len by (rule pos)
  then have "concat nss \<noteq> []" by auto
  then have "dedup_spec (concat nss) \<noteq> []" by (simp add: dedup_spec_Nil_iff)
  then have f: "remove_empty_rows (to_csv (data_frame (format_notary (dedup_spec (concat nss))))) =
      Inr (to_csv \<lparr>columns = csv_header, frame_rows = clean_rows (format_notary (dedup_spec (concat nss)))\<rparr>)"
    by (simp add: remove_empty_rows_format)
  show ?thesis using c d f len by (simp add: main_def)
qed

end
