(* ===== verification/Examples.thy ===== *)
theory Examples
  imports Crawl
begin

text \<open>
  Concrete inputs on which the theorems of the development are instantiated: sample
  listing records, sample detail and listing pages in the markup the extractors expect, and
  a two-page sample site (the specification's end-to-end scenario: two listing pages of three
  detail pages each, one office listed on both). The lemmas evaluate the code on them once,
  symbolically where possible, so that the witnesses stay cheap.
\<close>

section \<open>Sample records\<close>

text \<open>Three listings of one office (same address, phone and mail) and one other office.\<close>

definition rec_jean :: notary where
  "rec_jean = make_notary ''Jean Dupont'' ''01 23 45 67 89'' ''jean@x.fr'' ''https://x.fr'' ''1 rue A''"

definition rec_jean_lower :: notary where
  "rec_jean_lower = make_notary ''jean Martin'' ''01 23 45 67 89'' ''jean@x.fr'' ''https://x.fr'' ''1 rue A''"

definition rec_blank :: notary where
  "rec_blank = make_notary '' '' ''01 23 45 67 89'' ''jean@x.fr'' ''https://x.fr'' ''1 rue A''"

definition rec_paul :: notary where
  "rec_paul = make_notary ''Paul Roy'' ''0478000000'' ''paul@y.fr'' '''' ''0 av B''"

definition rec_marie :: notary where
  "rec_marie = make_notary ''Marie Martin'' ''01 23 45 67 89'' ''marie@x.fr'' ''https://x.fr'' ''1 rue A''"

definition rec_jacques :: notary where
  "rec_jacques = make_notary ''Jacques Roy'' ''01.23.45.67.89'' ''jean@x.fr'' '''' ''1 rue A''"

section \<open>Sample pages\<close>

definition detail_page :: "string \<Rightarrow> string \<Rightarrow> string \<Rightarrow> string \<Rightarrow> string list \<Rightarrow> node" where
  "detail_page nm ph ml ws addr = Tag ''[document]'' [] [
     Tag ''h1'' [(''class'', ''office-sheet__title text-center text-m-start'')]
       [Tag ''span'' [] [Text (nm @ '' : Office'')]],
     Tag ''div'' [(''class'', ''office-sheet__phone field--telephone'')] [Tag ''a'' [] [Text ph]],
     Tag ''div'' [(''class'', ''office-sheet__email field--email'')]
       [Tag ''a'' [(''href'', ''mailto:'' @ ml)] []],
     Tag ''div'' [(''class'', ''office-sheet__url field--link'')] [Tag ''a'' [(''href'', ws)] []],
     Tag ''div'' [(''class'', ''office-sheet__address field--address'')]
       [Tag ''p'' [(''class'', ''address'')] (map (\<lambda>s. Tag ''span'' [] [Text s]) addr)]]"

definition listing_card :: "string \<Rightarrow> node" where
  "listing_card l = Tag ''article'' [(''class'', ''notary-card notary-card--notary'')]
     [Tag ''a'' [(''class'', ''arrow-link''), (''href'', l @ ''?from=list'')] [Text ''Voir'']]"

definition listing_page :: "string list \<Rightarrow> node" where
  "listing_page links = Tag ''[document]'' [] (map listing_card links)"

definition url_doc :: "node list \<Rightarrow> node" where
  "url_doc links = Tag ''[document]'' [] [Tag ''div'' [(''class'', ''office-sheet__url field--link'')] links]"

definition mail_doc :: "node list \<Rightarrow> node" where
  "mail_doc links = Tag ''[document]'' [] [Tag ''div'' [(''class'', ''office-sheet__email field--email'')] links]"

section \<open>The sample site\<close>

definition sample_config :: crawl_config where
  "sample_config = \<lparr>base_url = ''https://n.fr'', uri = ''/l?page='', page_nb = 1\<rparr>"

definition sample_site :: "(string \<times> node) list" where
  "sample_site = [
     (''https://n.fr/l?page=0'', listing_page [''/n1'', ''/n2'', ''/n3'']),
     (''https://n.fr/l?page=1'', listing_page [''/n4'', ''/n5'', ''/n6'']),
     (''https://n.fr/n1'', detail_page ''Jean Dupont'' ''01 23 45 67 89'' ''jean@x.fr'' ''x.fr'' [''1 rue A'', ''Lyon'']),
     (''https://n.fr/n2'', detail_page ''Anne Roy'' ''04 78 00 00 01'' ''office@y.fr'' ''http://y.fr'' [''2 rue B'', ''Lyon'']),
     (''https://n.fr/n3'', detail_page ''Paul Ray'' ''0478000002'' ''paul@z.fr'' ''https://z.fr'' [''3 rue C'']),
     (''https://n.fr/n4'', detail_page ''Luc Bon'' ''04.78.00.00.03'' ''luc@w.fr'' ''w.fr'' [''4 rue D'']),
     (''https://n.fr/n5'', detail_page ''Marc Roy'' ''04 78 00 00 01'' ''office@y.fr'' ''http://y.fr'' [''2 rue B'', ''Lyon'']),
     (''https://n.fr/n6'', detail_page ''Eve Lin'' ''0478000006'' ''eve@v.fr'' '''' [''6 rue F''])]"

definition sample_session :: session where
  "sample_session url = (case map_of sample_site url of Some d \<Rightarrow> Inr d | None \<Rightarrow> Inl ClientError)"

definition failing_session :: session where
  "failing_session url = Inl ClientError"

text \<open>A session whose fetch of one detail page of the second listing fails.\<close>

definition flaky_session :: session where
  "flaky_session url = (if url = ''https://n.fr/n5'' then Inl ClientError else sample_session url)"

text \<open>A site whose two listing pages have no card.\<close>

definition empty_site_session :: session where
  "empty_site_session url =
     (if url = ''https://n.fr/l?page=0'' \<or> url = ''https://n.fr/l?page=1'' then Inr (listing_page [])
      else Inl ClientError)"

definition in_order :: scheduler where
  "in_order p n = [0..<n]"

definition reversed :: scheduler where
  "reversed p n = rev [0..<n]"

text \<open>A listing page whose second card has no link, on a site where every detail fetch
  fails.\<close>

definition bare_card :: node where
  "bare_card = Tag ''article'' [(''class'', ''notary-card notary-card--notary'')] [Text ''Voir'']"

definition broken_listing :: node where
  "broken_listing = Tag ''[document]'' [] [listing_card ''/n1'', bare_card]"

definition broken_session :: session where
  "broken_session url = (if url = ''https://n.fr/l?page=0'' then Inr broken_listing else Inl ClientError)"

definition site_records :: "notary list" where
  "site_records = [
     make_notary ''Jean Dupont'' ''01 23 45 67 89'' ''jean@x.fr'' ''https://x.fr'' ''1 rue A Lyon'',
     make_notary ''Anne Roy'' ''04 78 00 00 01'' ''office@y.fr'' ''http://y.fr'' ''2 rue B Lyon'',
     make_notary ''Paul Ray'' ''04 78 00 00 02'' ''paul@z.fr'' ''https://z.fr'' ''3 rue C'',
     make_notary ''Luc Bon'' ''04 78 00 00 03'' ''luc@w.fr'' ''https://w.fr'' ''4 rue D'',
     make_notary ''Marc Roy'' ''04 78 00 00 01'' ''office@y.fr'' ''http://y.fr'' ''2 rue B Lyon'',
     make_notary ''Eve Lin'' ''04 78 00 00 06'' ''eve@v.fr'' ''https://'' ''6 rue F'']"

definition site_deduped :: "notary list" where
  "site_deduped = map (\<lambda>i. site_records ! i) [0, 1, 2, 3, 5]"

text \<open>The file the sample run leaves: the header and the five deduplicated records.\<close>

definition site_csv :: string where
  "site_csv = to_csv \<lparr>columns = csv_header, frame_rows = map (map Some) (format_notary site_deduped)\<rparr>"

lemmas site_defs = sample_session_def sample_site_def sample_config_def

lemmas sample_records = rec_jean_def rec_jean_lower_def rec_blank_def rec_paul_def rec_marie_def
  rec_jacques_def

section \<open>Evaluation lemmas\<close>

lemma valid_in_order: "valid_scheduler in_order"
  by (simp add: valid_scheduler_def in_order_def)

lemma valid_reversed: "valid_scheduler reversed"
  by (simp add: valid_scheduler_def reversed_def)

lemma spans_of_address:
  "filter (tag_matches ''span'' None) (concat (map (\<lambda>x. [Tag ''span'' [] [Text x], Text x]) addr))
   = map (\<lambda>s. Tag ''span'' [] [Text s]) addr"
  by (induction addr) auto

lemma extract_detail_page:
  "extract_notary (detail_page nm ph ml ws addr) =
     Inr (make_notary (hd (split_on '' : '' [] (nm @ '' : Office''))) (format_phone_number ph)
       (py_replace (''mailto:'' @ ml) ''mailto:'' '''') (if startswith ws ''http'' then ws else ''https://'' @ ws)
       (py_join '' '' addr))"
  by (simp add: extract_notary_def detail_page_def get_name_def get_phone_def get_mail_def
    get_website_def get_address_def find_in_def find_all_in_def class_matches_def py_split_ws_def
    is_py_space_def py_first_split_on comp_def spans_of_address)

lemma find_cards_listing: "find_cards (listing_page links) = map listing_card links"
  by (induction links)
    (simp_all add: find_cards_def find_all_in_def listing_page_def listing_card_def
      class_matches_def py_split_ws_def is_py_space_def)

lemma card_link_listing: "CHR ''?'' \<notin> set l \<Longrightarrow> card_link (listing_card l) = Inr l"
  by (simp add: card_link_def listing_card_def find_in_def class_matches_def py_split_ws_def
      is_py_space_def split_on_single_sep py_first_split_on)

lemma py_str_nat_0: "py_str_nat 0 = ''0''"
proof -
  have "char_of (of_char (CHR ''0'') :: nat) = CHR ''0''" by (rule char_of_char)
  then show ?thesis by (simp add: py_str_nat.simps digit_char_def)
qed

lemma py_str_nat_1: "py_str_nat (Suc 0) = ''1''"
proof -
  have "char_of (of_char (CHR ''1'') :: nat) = CHR ''1''" by (rule char_of_char)
  then show ?thesis by (simp add: py_str_nat.simps digit_char_def)
qed



lemmas page_eval = crawl_page_def swoup_def listing_url_def site_defs find_cards_listing
  get_endpoints_def card_link_listing as_completed_def extract_detail_page site_records_def
  format_phone_number_fields phone_fields_def py_slice_def phone_digits_def is_ascii_digit_def
  py_replace_def startswith_def

lemma crawl_page_sample_0:
  "crawl_page sample_config sample_session in_order 0 = Inr (take 3 site_records)"
  by (simp add: page_eval py_str_nat_0 in_order_def)

lemma crawl_page_sample_1:
  "crawl_page sample_config sample_session in_order 1 = Inr (drop 3 site_records)"
  by (simp add: page_eval py_str_nat_1 in_order_def)



lemma crawl_page_sample_rev_0:
  "crawl_page sample_config sample_session reversed 0 = Inr (rev (take 3 site_records))"
  by (simp add: page_eval py_str_nat_0 reversed_def)

lemma crawl_page_sample_rev_1:
  "crawl_page sample_config sample_session reversed 1 = Inr (rev (drop 3 site_records))"
  by (simp add: page_eval py_str_nat_1 reversed_def)

lemma crawl_pages_sample:
  "crawl_pages sample_config sample_session in_order [0..<page_nb sample_config + 1] [] = Inr site_records"
proof -
  have "[0..<page_nb sample_config + 1] = [0, 1]" by (simp add: sample_config_def)
  then show ?thesis
    using crawl_page_sample_0 crawl_page_sample_1 by (simp add: site_records_def)
qed

lemma sort_notaries_site: "sort_notaries site_records = Inr site_deduped"
  by (simp add: dedup_eval site_records_def site_deduped_def)

lemma clean_rows_site: "clean_rows (format_notary site_deduped) = map (map Some) (format_notary site_deduped)"
  by (simp add: clean_rows_def format_notary_map site_deduped_def site_records_def na_of_def
      na_cell_def pandas_na_values_def)

lemma remove_empty_rows_site:
  "remove_empty_rows (to_csv (data_frame (format_notary site_deduped))) = Inr site_csv"
proof -
  have "site_deduped \<noteq> []" by (simp add: site_deduped_def)
  then show ?thesis by (simp add: remove_empty_rows_format clean_rows_site site_csv_def)
qed

lemma main_sample:
  "main sample_config sample_session in_order =
     Inr \<lparr>csv_file = site_csv, n_notaries = 6, n_sorted = 5\<rparr>"
  unfolding main_def crawl_pages_sample by (simp add: sort_notaries_site remove_empty_rows_site)
    (simp add: site_records_def site_deduped_def)

lemma crawl_pages_sample_rev:
  "crawl_pages sample_config sample_session reversed [0..<page_nb sample_config + 1] [] =
     Inr (rev (take 3 site_records) @ rev (drop 3 site_records))"
proof -
  have "[0..<page_nb sample_config + 1] = [0, 1]" by (simp add: sample_config_def)
  then show ?thesis
    using crawl_page_sample_rev_0 crawl_page_sample_rev_1 by simp
qed

lemma sort_notaries_site_rev:
  "sort_notaries (rev (take 3 site_records) @ rev (drop 3 site_records)) = Inr site_deduped"
  by (simp add: dedup_eval site_records_def site_deduped_def)

lemma main_sample_rev:
  "main sample_config sample_session reversed =
     Inr \<lparr>csv_file = site_csv, n_notaries = 6, n_sorted = 5\<rparr>"
  unfolding main_def crawl_pages_sample_rev by (simp add: sort_notaries_site_rev remove_empty_rows_site)
    (simp add: site_records_def site_deduped_def)

lemma crawl_page_flaky_0:
  "crawl_page sample_config flaky_session in_order 0 = Inr (take 3 site_records)"
  by (simp add: page_eval flaky_session_def py_str_nat_0 in_order_def)

lemma crawl_page_flaky_1:
  "crawl_page sample_config flaky_session in_order 1 = Inl ClientError"
  by (simp add: page_eval flaky_session_def py_str_nat_1 in_order_def)

lemma crawl_pages_empty_site:
  "crawl_pages sample_config empty_site_session in_order [0..<page_nb sample_config + 1] [] = Inr []"
proof -
  have "[0..<page_nb sample_config + 1] = [0, 1]" by (simp add: sample_config_def)
  moreover have "crawl_page sample_config empty_site_session in_order 0 = Inr []"
    by (simp add: crawl_page_def swoup_def listing_url_def sample_config_def empty_site_session_def
        py_str_nat_0 find_cards_listing get_endpoints_def as_completed_def in_order_def)
  moreover have "crawl_page sample_config empty_site_session in_order 1 = Inr []"
    by (simp add: crawl_page_def swoup_def listing_url_def sample_config_def empty_site_session_def
        py_str_nat_1 find_cards_listing get_endpoints_def as_completed_def in_order_def)
  ultimately show ?thesis by simp
qed

lemma swoup_listing_0: "swoup sample_session (listing_url sample_config 0) = Inr (listing_page [''/n1'', ''/n2'', ''/n3''])"
  by (simp add: swoup_def listing_url_def site_defs py_str_nat_0)
lemma swoup_listing_1: "swoup sample_session (listing_url sample_config 1) = Inr (listing_page [''/n4'', ''/n5'', ''/n6''])"
  by (simp add: swoup_def listing_url_def site_defs py_str_nat_1)
lemma sample_task_ok:
  "l \<in> set [''/n1'', ''/n2'', ''/n3'', ''/n4'', ''/n5'', ''/n6''] \<Longrightarrow>
   task_ok (sample_session (base_url sample_config @ l))"
  unfolding set_simps insert_iff empty_iff
  by (elim disjE FalseE)
    (simp_all add: task_ok_def site_defs extract_detail_page blank_name_def py_split_ws_def is_py_space_def)
lemma page_ok_sample_0: "page_ok sample_config sample_session 0"
  unfolding page_ok_def swoup_listing_0 by (simp add: find_cards_listing card_link_listing sample_task_ok)
lemma page_ok_sample_1: "page_ok sample_config sample_session 1"
  unfolding page_ok_def swoup_listing_1 by (simp add: find_cards_listing card_link_listing sample_task_ok)
lemma site_ok_sample: "site_ok sample_config sample_session"
proof -
  have "[0..<page_nb sample_config + 1] = [0, 1]" by (simp add: sample_config_def)
  moreover have "page_cards sample_config sample_session 0 = 3"
    unfolding page_cards_def swoup_listing_0 by (simp add: find_cards_listing)
  ultimately show ?thesis using page_ok_sample_0 page_ok_sample_1 by (simp add: site_ok_def)
qed

end
