(* ===== verification/Spec2Isabelle.thy ===== *)
theory Spec2Isabelle
  imports Examples
begin

text \<open>
  \<^bold>\<open>A verification development of \<^verbatim>\<open>src/asyncNotary.py\<close>.\<close>

  The program crawls a paginated directory of notaries: for each listing page
  \<^verbatim>\<open>0 .. pageNb\<close> it fetches the page (\<^verbatim>\<open>swoup\<close>), collects the detail-page links of its
  cards and fetches them concurrently (\<^verbatim>\<open>get_endpoints\<close>), extracts five fields from each
  detail page (\<^verbatim>\<open>get_name\<close>, \<^verbatim>\<open>get_phone\<close>, \<^verbatim>\<open>get_mail\<close>, \<^verbatim>\<open>get_website\<close>,
  \<^verbatim>\<open>get_address\<close>, the phone through \<^verbatim>\<open>format_phone_number\<close>) into a \<^verbatim>\<open>Notary\<close>, then
  deduplicates the records (\<^verbatim>\<open>sort_notaries\<close>), projects them to rows
  (\<^verbatim>\<open>format_notary\<close>), writes the CSV file and cleans it (\<^verbatim>\<open>remove_empty_rows\<close>), and
  prints two counts. All of it is \<^verbatim>\<open>main\<close>, which the module runs under the Windows
  event-loop policy.

  \<^bold>\<open>Theories and what they model.\<close>
  \<^item> \<open>Prelude\<close>: Python's exceptions as the datatype \<open>py_error\<close> and a statement's outcome
    as \<open>'a result = py_error + 'a\<close> (\<open>Inl\<close> the raised exception); \<open>sbind\<close> sequences
    statements, \<open>catch\<close> is \<^verbatim>\<open>try/except\<close>, \<open>map_result\<close> a \<^verbatim>\<open>for\<close> loop that stops at
    the first exception, \<open>py_first\<close> is \<^verbatim>\<open>xs[0]\<close>. Shared lemmas on these.
  \<^item> \<open>PyStr\<close>: the string methods the code calls, on \<open>string\<close> (code points below 256):
    \<^verbatim>\<open>split(sep)\<close>, \<^verbatim>\<open>split()\<close>, \<^verbatim>\<open>join\<close>, \<^verbatim>\<open>replace\<close>, \<^verbatim>\<open>startswith\<close>, slicing,
    \<^verbatim>\<open>range(a, b, step)\<close> and \<^verbatim>\<open>str(n)\<close>, with their join/split and print/parse round trips.
  \<^item> \<open>Phone\<close>: \<^verbatim>\<open>format_phone_number\<close> (lines 40--43) and its properties: five fields,
    the first ten digits, length, character set, idempotence, the specification's examples.
  \<^item> \<open>Notary\<close>: the \<^verbatim>\<open>Notary\<close> class (its file is not in the repository: modelled from
    the specification as a record of five strings) and the identity key of line 101.
  \<^item> \<open>Dedup\<close>: \<^verbatim>\<open>sort_notaries\<close> (lines 96--129) as written: \<open>group_notaries\<close> is the
    dictionary loop (an insertion-ordered association list), \<open>find_matching\<close> the scan of
    a group, with \<^verbatim>\<open>name.split()[0]\<close> raising on a blank name, \<open>resolve_group\<close> one
    iteration of the second loop, and the final stable sort by key. Beside it, the
    abstract specification \<open>dedup_spec\<close> (one canonical record per key, keys ascending) and
    the refinement theorem, from which follow the key, membership, choice, idempotence and
    order-(in)dependence theorems.
  \<^item> \<open>Html\<close>: the parsed document as a tree and the BeautifulSoup calls the program makes
    (\<^verbatim>\<open>find\<close>, \<^verbatim>\<open>find_all\<close>, \<^verbatim>\<open>.text\<close>, \<^verbatim>\<open>['href']\<close>), with Python's behaviour on
    \<^verbatim>\<open>None\<close> (\<open>AttributeError\<close>, \<open>TypeError\<close>) and on a missing attribute (\<open>KeyError\<close>).
    BeautifulSoup is a library: this is its documented behaviour, not its code.
  \<^item> \<open>Extractors\<close>: the five extractors (lines 33--77) and their value on every document.
  \<^item> \<open>EventLoop\<close>: the completion loop of \<^verbatim>\<open>get_endpoints\<close> (lines 26--30) twice: as
    \<open>as_completed\<close>, the tasks taken in an order the event loop chooses, and as the step
    relation \<open>await_step\<close>, one completed task at a time, a failed task re-raising. Every
    reachable state accounts for each task once, and the two have the same outcomes.
  \<^item> \<open>Csv\<close>: pandas' \<^verbatim>\<open>to_csv\<close> and \<^verbatim>\<open>read_csv\<close> with the program's defaults, from their
    documentation: quoting, CRLF line ends, blank lines, the default NA strings,
    \<open>EmptyDataError\<close> and \<open>ParserError\<close>; the round trip of a written frame, the lemma the
    export theorems build on.
  \<^item> \<open>Export\<close>: \<^verbatim>\<open>format_notary\<close> (lines 80--93), the data frame and its file
    (lines 157--158), and \<^verbatim>\<open>remove_empty_rows\<close> (lines 132--135) on the file's text: the
    cleaned file of every run, and its shape when read back.
  \<^item> \<open>Crawl\<close>: the configuration constants, \<^verbatim>\<open>swoup\<close>, \<^verbatim>\<open>get_endpoints\<close> and
    \<^verbatim>\<open>main\<close>: \<open>crawl_page\<close> is one iteration of the page loop, \<open>crawl_pages\<close> the loop
    with its accumulator, \<open>main\<close> the run. The network is a \<open>session\<close>, a function from a
    URL to a document or \<open>ClientError\<close>. The concurrency of the detail fetches is a
    \<open>scheduler\<close> that chooses, per page, the completion order of the tasks (a permutation of
    their indices, \<open>valid_scheduler\<close>), justified by \<open>EventLoop\<close>. Since nothing runs in
    parallel at the memory level and the tasks only read the session, the order in which
    results are consumed is the only observable effect of the event loop. \<open>run_script\<close> is
    the module's top level (lines 165--166). Theorems: the page loop equals its reference
    (map, then concatenate), schedule independence, fail-fast failure, a malformed card
    raising before any detail page is awaited, bounds, the run without records, and liveness: on a site whose pages, links and
    fields are all well-formed (\<open>site_ok\<close>), every run returns.
  \<^item> \<open>Examples\<close>: a sample site of two listing pages and six detail pages (one office
    listed on both pages), sessions and schedulers over it, and its evaluation.
  \<^item> This theory: the end-to-end scenario of the specification under every completion
    order, concrete cases of deduplication and extraction that illustrate the findings, and
    the witnesses that apply the conditional theorems to the sample site and to a listing
    page with a malformed card.

  \<^bold>\<open>Termination and fuel.\<close> Every loop of the program runs over a finite list (pages,
  cards, endpoints, records, groups, characters of a file), so every definition is a total
  \<open>fun\<close>, \<open>primrec\<close> or \<open>definition\<close>; only \<open>py_range_step\<close> needs a measure. No fuel is
  used. Every definition is executable and the examples evaluate by \<open>simp\<close>.

  \<^bold>\<open>Not modelled.\<close> The progress bar and the timer (output only); HTML parsing itself
  (the document is given as a tree); HTTP status handling inside aiohttp (the session decides
  what a URL yields); pandas' numeric type inference in \<^verbatim>\<open>read_csv\<close> (a column of
  number-like strings would be rewritten, e.g. \<^verbatim>\<open>012\<close> as \<^verbatim>\<open>12\<close>; every cell stays a
  string here), its renaming of duplicate or empty column names, and its implicit index
  column; characters beyond code point 255 in \<^verbatim>\<open>str.split()\<close>; the \<^verbatim>\<open>Notary\<close> getters,
  which the specification describes as plain field reads.
\<close>

section \<open>Deduplication on concrete inputs\<close>

text \<open>The concrete cases below illustrate the findings recorded with the development; the
  general statements are the theorems of \<open>Dedup\<close>.\<close>

text \<open>The matching rule of the engine is case-sensitive: of two listings of
  one office, \<^verbatim>\<open>"Jean Dupont"\<close> does not match \<^verbatim>\<open>jean@x.fr\<close> but \<^verbatim>\<open>"jean Martin"\<close> does,
  so the second is kept although it comes later. In the specification's own example the two
  records have different mails, hence different identity keys, and both are kept.\<close>

lemma sort_notaries_case_sensitive:
  "sort_notaries [rec_jean, rec_jean_lower] = Inr [rec_jean_lower] \<and>
   sort_notaries [rec_jean, rec_marie] = Inr [rec_jean, rec_marie]"
  by (simp add: dedup_eval sample_records)

text \<open>A listing whose name is non-empty but made of whitespace only, met by
  the group scan before any matching listing, makes \<^verbatim>\<open>notary.name.split()[0]\<close> raise
  \<open>IndexError\<close>: the whole run aborts instead of keeping one record of the office.\<close>

lemma sort_notaries_blank_raises:
  "sort_notaries [rec_blank, rec_jean_lower] = Inl IndexError \<and>
   sort_notaries [rec_jean, rec_blank, rec_jean_lower] = Inl IndexError \<and>
   sort_notaries [rec_jean_lower, rec_blank] = Inr [rec_jean_lower]"
  by (simp add: dedup_eval sample_records)

text \<open>When no listing of a group matches, the kept record is the first to
  arrive: the output depends on the completion order of the fetches.\<close>

lemma sort_notaries_order_dependent:
  "sort_notaries [rec_jean, rec_jacques, rec_paul] = Inr [rec_paul, rec_jean] \<and>
   sort_notaries [rec_paul, rec_jacques, rec_jean] = Inr [rec_paul, rec_jacques]"
  by (simp add: dedup_eval sample_records)

section \<open>Witnesses of the deduplication theorems\<close>

lemma sort_notaries_sample: "sort_notaries [rec_jean, rec_paul, rec_marie, rec_jacques] =
    Inr [rec_paul, rec_jean, rec_marie]"
  by (simp add: dedup_eval sample_records)

theorem sort_notaries_keys_witness:
  "sort_notaries [rec_jean, rec_paul, rec_marie, rec_jacques] = Inr [rec_paul, rec_jean, rec_marie] \<and>
   sorted (map notary_key [rec_paul, rec_jean, rec_marie]) \<and>
   distinct (map notary_key [rec_paul, rec_jean, rec_marie]) \<and>
   set (map notary_key [rec_paul, rec_jean, rec_marie]) =
   set (map notary_key [rec_jean, rec_paul, rec_marie, rec_jacques])"
  using Dedup.sort_notaries_keys [OF sort_notaries_sample] sort_notaries_sample by simp

theorem sort_notaries_members_witness:
  "sort_notaries [rec_jean, rec_paul, rec_marie, rec_jacques] = Inr [rec_paul, rec_jean, rec_marie] \<and>
   set [rec_paul, rec_jean, rec_marie] \<subseteq> set [rec_jean, rec_paul, rec_marie, rec_jacques] \<and>
   length [rec_paul, rec_jean, rec_marie] \<le> length [rec_jean, rec_paul, rec_marie, rec_jacques]"
  using Dedup.sort_notaries_members [OF sort_notaries_sample] sort_notaries_sample by simp

theorem sort_notaries_choice_witness:
  "sort_notaries [rec_jean, rec_paul, rec_marie, rec_jacques] = Inr [rec_paul, rec_jean, rec_marie] \<and>
   rec_jean \<in> set [rec_paul, rec_jean, rec_marie] \<and>
   rec_jean = (case find name_matches_mail (key_group [rec_jean, rec_paul, rec_marie, rec_jacques]
                  (notary_key rec_jean)) of
                Some m \<Rightarrow> m
              | None \<Rightarrow> hd (key_group [rec_jean, rec_paul, rec_marie, rec_jacques] (notary_key rec_jean)))"
  using Dedup.sort_notaries_choice [OF sort_notaries_sample, of rec_jean] sort_notaries_sample by simp

theorem sort_notaries_idem_witness:
  "sort_notaries [rec_jean, rec_paul, rec_marie, rec_jacques] = Inr [rec_paul, rec_jean, rec_marie] \<and>
   sort_notaries [rec_paul, rec_jean, rec_marie] = Inr [rec_paul, rec_jean, rec_marie]"
  using Dedup.sort_notaries_idem [OF sort_notaries_sample] sort_notaries_sample by simp

lemma sample_groups_interleaved:
  "\<forall>k. key_group [rec_jean, rec_paul, rec_jacques] k = key_group [rec_paul, rec_jean, rec_jacques] k"
  by (auto simp: key_group_def sample_records make_notary_def notary_key_def)

theorem sort_notaries_group_order_witness:
  "(\<forall>k. key_group [rec_jean, rec_paul, rec_jacques] k = key_group [rec_paul, rec_jean, rec_jacques] k) \<and>
   sort_notaries [rec_jean, rec_paul, rec_jacques] = sort_notaries [rec_paul, rec_jean, rec_jacques]"
  using Dedup.sort_notaries_group_order [OF sample_groups_interleaved] sample_groups_interleaved
  by simp

lemma sort_notaries_sample_perm:
  "sort_notaries [rec_jacques, rec_marie, rec_paul, rec_jean] = Inr [rec_paul, rec_jacques, rec_marie]"
  by (simp add: dedup_eval sample_records)

theorem sort_notaries_perm_keys_witness:
  "mset [rec_jean, rec_paul, rec_marie, rec_jacques] = mset [rec_jacques, rec_marie, rec_paul, rec_jean] \<and>
   sort_notaries [rec_jean, rec_paul, rec_marie, rec_jacques] = Inr [rec_paul, rec_jean, rec_marie] \<and>
   sort_notaries [rec_jacques, rec_marie, rec_paul, rec_jean] = Inr [rec_paul, rec_jacques, rec_marie] \<and>
   map notary_key [rec_paul, rec_jean, rec_marie] = map notary_key [rec_paul, rec_jacques, rec_marie]"
proof -
  have p: "mset [rec_jean, rec_paul, rec_marie, rec_jacques] = mset [rec_jacques, rec_marie, rec_paul, rec_jean]"
    by (simp add: add_mset_commute)
  show ?thesis
    using Dedup.sort_notaries_perm_keys [OF p sort_notaries_sample sort_notaries_sample_perm]
      p sort_notaries_sample sort_notaries_sample_perm by simp
qed



section \<open>Extractors on concrete documents\<close>

text \<open>Instances of the theorems of \<open>Extractors\<close> that illustrate the findings.\<close>

text \<open>The website normalisation of the specification: a value without
  scheme gets \<^verbatim>\<open>https://\<close>, \<^verbatim>\<open>http://\<close> and \<^verbatim>\<open>https://\<close> values are kept. The test is
  \<^verbatim>\<open>startswith("http")\<close>, not a scheme test: a schemeless host that begins with
  \<^verbatim>\<open>http\<close>, such as \<^verbatim>\<open>httpbin.org\<close>, is kept without scheme.\<close>

lemma get_website_examples:
  "get_website (url_doc [Tag ''a'' [(''href'', ''example.com'')] []]) = Inr ''https://example.com'' \<and>
   get_website (url_doc [Tag ''a'' [(''href'', ''http://example.com'')] []]) = Inr ''http://example.com'' \<and>
   get_website (url_doc [Tag ''a'' [(''href'', ''https://example.com'')] []]) = Inr ''https://example.com'' \<and>
   get_website (url_doc [Tag ''a'' [(''href'', ''httpbin.org'')] []]) = Inr ''httpbin.org''"
  by (simp add: get_website_def url_doc_def find_in_def class_matches_def py_split_ws_def
      is_py_space_def startswith_def)

text \<open>Contrary to the specification, which makes every extractor total,
  \<^verbatim>\<open>get_mail\<close> and \<^verbatim>\<open>get_website\<close> raise on a field container without a link
  (\<open>TypeError\<close>, \<^verbatim>\<open>None['href']\<close>) and on a link without \<^verbatim>\<open>href\<close> (\<open>KeyError\<close>); only
  \<open>AttributeError\<close> is caught. A field that is missing altogether gives the empty string.\<close>

lemma extractor_raises:
  "get_mail (mail_doc []) = Inl TypeError \<and>
   get_mail (mail_doc [Tag ''a'' [] [Text ''jean@x.fr'']]) = Inl KeyError \<and>
   get_mail (mail_doc [Tag ''a'' [(''href'', ''mailto:jean@x.fr'')] []]) = Inr ''jean@x.fr'' \<and>
   get_website (url_doc []) = Inl TypeError \<and>
   get_mail (Tag ''[document]'' [] []) = Inr '''' \<and> get_website (Tag ''[document]'' [] []) = Inr ''''"
  by (simp add: get_mail_def get_website_def url_doc_def mail_doc_def find_in_def class_matches_def
      py_split_ws_def is_py_space_def py_replace_def startswith_def)

text \<open>\<^verbatim>\<open>get_mail\<close> removes every occurrence of \<^verbatim>\<open>mailto:\<close> in the
  link target (\<^verbatim>\<open>str.replace\<close>), not only a leading scheme marker as the specification
  says: a mail whose local part contains \<^verbatim>\<open>mailto:\<close> is altered.\<close>

lemma get_mail_strips_every_marker:
  "get_mail (mail_doc [Tag ''a'' [(''href'', ''mailto:a.mailto:b@x.fr'')] []]) = Inr ''a.b@x.fr''"
  by (simp add: get_mail_def mail_doc_def find_in_def class_matches_def py_split_ws_def
      is_py_space_def py_replace_def startswith_def)

section \<open>The whole run on the sample site\<close>

lemma site_not_blank: "list_all (\<lambda>n. \<not> blank_name n) site_records"
  by (simp add: site_records_def blank_name_def py_split_ws_def is_py_space_def)

lemma site_named: "list_all (\<lambda>n. \<not> na_cell (name n)) site_records"
  by (simp add: site_records_def na_cell_def pandas_na_values_def)

lemma site_keys: "length (remdups (map notary_key site_records)) = 5"
  by (simp add: site_records_def notary_key_def format_phone_number_fields phone_fields_def
      py_slice_def phone_digits_def is_ascii_digit_def)

text \<open>(C2) The end-to-end scenario of the specification: two listing pages of three
  detail pages each, one office listed on both. Whatever the completion order of the detail
  fetches, the run succeeds with six candidate records and five deduplicated records, and the
  file has five rows.\<close>

theorem main_end_to_end:
  assumes "valid_scheduler sched"
  shows "\<exists>out. main sample_config sample_session sched = Inr out \<and>
           n_notaries out = 6 \<and> n_sorted out = 5 \<and>
           (\<exists>rows. read_csv (csv_file out) = Inr \<lparr>columns = csv_header, frame_rows = rows\<rparr> \<and>
              length rows = 5)"
proof -
  let ?pages = "[0..<page_nb sample_config + 1]"
  from crawl_pages_sample obtain nss1 where m1: "map_result (crawl_page sample_config sample_session in_order) ?pages = Inr nss1"
    and ns1: "site_records = concat nss1"
    by (auto simp: crawl_pages_eq sbind_eq_Inr)
  from crawl_pages_sched [OF valid_in_order assms m1] obtain nss2 where
    m2: "map_result (crawl_page sample_config sample_session sched) ?pages = Inr nss2"
    and perm: "mset (concat nss2) = mset site_records" by (auto simp: ns1)
  let ?ns = "concat nss2"
  have crawl: "crawl_pages sample_config sample_session sched ?pages [] = Inr ?ns"
    using m2 by (simp add: crawl_pages_eq)
  have set_ns: "set ?ns = set site_records" using perm by (metis set_mset_mset)
  have len_ns: "length ?ns = 6" using arg_cong [OF perm, of size] by (simp add: site_records_def)
  have "list_all (\<lambda>n. \<not> blank_name n) ?ns" using site_not_blank set_ns by (simp add: list_all_iff)
  then have dedup: "sort_notaries ?ns = Inr (dedup_spec ?ns)"
    by (simp add: sort_notaries_eq no_blank_not_raises)
  have "length (dedup_spec ?ns) = card (set (map notary_key ?ns))"
    by (simp add: dedup_spec_def length_remdups_card_conv)
  also have "set (map notary_key ?ns) = set (map notary_key site_records)"
    using set_ns by (simp only: set_map)
  also have "card \<dots> = 5" using site_keys by (simp only: length_remdups_card_conv)
  finally have len_d: "length (dedup_spec ?ns) = 5" .
  have "list_all (\<lambda>n. \<not> na_cell (name n)) (dedup_spec ?ns)"
    using site_named dedup_spec_members [of ?ns] set_ns by (auto simp: list_all_iff)
  then have len_r: "length (clean_rows (format_notary (dedup_spec ?ns))) = 5"
    by (simp add: clean_rows_named len_d)
  have "dedup_spec ?ns \<noteq> []" using len_d by auto
  then have wr: "remove_empty_rows (to_csv (data_frame (format_notary (dedup_spec ?ns)))) =
      Inr (to_csv \<lparr>columns = csv_header, frame_rows = clean_rows (format_notary (dedup_spec ?ns))\<rparr>)"
    by (simp add: remove_empty_rows_format)
  have "read_csv (to_csv \<lparr>columns = csv_header, frame_rows = clean_rows (format_notary (dedup_spec ?ns))\<rparr>) =
      Inr \<lparr>columns = csv_header, frame_rows = clean_rows (format_notary (dedup_spec ?ns))\<rparr>"
    by (rule read_clean_file [OF length_format_notary_rows])
  with len_r show ?thesis
    using crawl dedup len_ns len_d wr by (simp add: main_def)
qed


section \<open>Witnesses of the crawl theorems\<close>

theorem crawl_page_one_per_card_witness:
  "valid_scheduler in_order \<and>
   swoup sample_session (listing_url sample_config 0) = Inr (listing_page [''/n1'', ''/n2'', ''/n3'']) \<and>
   crawl_page sample_config sample_session in_order 0 = Inr (take 3 site_records) \<and>
   length (take 3 site_records) = length (find_cards (listing_page [''/n1'', ''/n2'', ''/n3'']))"
  using Crawl.crawl_page_one_per_card [OF valid_in_order swoup_listing_0 crawl_page_sample_0]
    valid_in_order swoup_listing_0 crawl_page_sample_0 by blast

theorem crawl_pages_schedule_witness:
  "valid_scheduler in_order \<and> valid_scheduler reversed \<and>
   crawl_pages sample_config sample_session in_order [0..<page_nb sample_config + 1] [] = Inr site_records \<and>
   (\<exists>ns2. crawl_pages sample_config sample_session reversed [0..<page_nb sample_config + 1] [] = Inr ns2 \<and>
      mset ns2 = mset site_records)"
  using Crawl.crawl_pages_schedule [OF valid_in_order valid_reversed crawl_pages_sample]
    valid_in_order valid_reversed crawl_pages_sample by blast

theorem main_schedule_counts_witness:
  "valid_scheduler in_order \<and> valid_scheduler reversed \<and>
   main sample_config sample_session in_order =
     Inr \<lparr>csv_file = site_csv, n_notaries = 6, n_sorted = 5\<rparr> \<and>
   main sample_config sample_session reversed =
     Inr \<lparr>csv_file = site_csv, n_notaries = 6, n_sorted = 5\<rparr> \<and>
   n_notaries \<lparr>csv_file = site_csv, n_notaries = 6, n_sorted = 5\<rparr> =
     n_notaries \<lparr>csv_file = site_csv, n_notaries = 6, n_sorted = 5\<rparr>"
  using Crawl.main_schedule_counts [OF valid_in_order valid_reversed main_sample main_sample_rev]
    valid_in_order valid_reversed main_sample main_sample_rev by blast

lemma flaky_before_1: "\<forall>q < 1. \<exists>ns. crawl_page sample_config flaky_session in_order q = Inr ns"
  by (simp add: crawl_page_flaky_0)

theorem main_first_failure_witness:
  "1 \<le> page_nb sample_config \<and>
   crawl_page sample_config flaky_session in_order 0 = Inr (take 3 site_records) \<and>
   crawl_page sample_config flaky_session in_order 1 = Inl ClientError \<and>
   main sample_config flaky_session in_order = Inl ClientError"
proof -
  have p: "1 \<le> page_nb sample_config" by (simp add: sample_config_def)
  show ?thesis
    using Crawl.main_first_failure [OF p flaky_before_1 crawl_page_flaky_1] p crawl_page_flaky_0
      crawl_page_flaky_1 by blast
qed

lemma card_links_broken: "map_result card_link (find_cards broken_listing) = Inl TypeError"
proof -
  have "find_cards broken_listing = [listing_card ''/n1'', bare_card]"
    by (simp add: find_cards_def find_all_in_def broken_listing_def listing_card_def bare_card_def
        class_matches_def py_split_ws_def is_py_space_def)
  moreover have "card_link (listing_card ''/n1'') = Inr ''/n1''" by (simp add: card_link_listing)
  moreover have "card_link bare_card = Inl TypeError"
    by (simp add: card_link_def bare_card_def find_in_def)
  ultimately show ?thesis by simp
qed

lemma swoup_broken: "swoup broken_session (listing_url sample_config 0) = Inr broken_listing"
  by (simp add: swoup_def broken_session_def listing_url_def sample_config_def py_str_nat_0)

theorem crawl_page_link_error_witness:
  "swoup broken_session (listing_url sample_config 0) = Inr broken_listing \<and>
   map_result card_link (find_cards broken_listing) = Inl TypeError \<and>
   crawl_page sample_config broken_session reversed 0 = Inl TypeError"
  using Crawl.crawl_page_link_error [OF swoup_broken card_links_broken] swoup_broken card_links_broken
  by blast

theorem main_bounds_witness:
  "main sample_config sample_session in_order =
     Inr \<lparr>csv_file = site_csv, n_notaries = 6, n_sorted = 5\<rparr> \<and>
   n_sorted \<lparr>csv_file = site_csv, n_notaries = 6, n_sorted = 5\<rparr> \<le>
     n_notaries \<lparr>csv_file = site_csv, n_notaries = 6, n_sorted = 5\<rparr> \<and>
   (\<exists>rows. read_csv site_csv = Inr \<lparr>columns = csv_header, frame_rows = rows\<rparr> \<and> length rows \<le> 5)"
  using Crawl.main_bounds [OF main_sample] main_sample by simp

theorem main_end_to_end_witness:
  "valid_scheduler reversed \<and>
   (\<exists>out. main sample_config sample_session reversed = Inr out \<and>
      n_notaries out = 6 \<and> n_sorted out = 5 \<and>
      (\<exists>rows. read_csv (csv_file out) = Inr \<lparr>columns = csv_header, frame_rows = rows\<rparr> \<and>
         length rows = 5))"
  using main_end_to_end [OF valid_reversed] valid_reversed by blast

theorem export_rows_shape_witness:
  "remove_empty_rows (to_csv (data_frame (format_notary site_deduped))) = Inr site_csv \<and>
   (\<exists>rows. read_csv site_csv = Inr \<lparr>columns = csv_header, frame_rows = rows\<rparr> \<and>
      list_all (\<lambda>r. length r = 5 \<and> list_ex (\<lambda>v. v \<noteq> None) r) rows \<and>
      length rows \<le> length site_deduped \<and> remove_empty_rows site_csv = Inr site_csv)"
  using Export.export_rows_shape [OF remove_empty_rows_site] remove_empty_rows_site by blast



theorem main_succeeds_witness:
  "site_ok sample_config sample_session \<and> valid_scheduler reversed \<and>
   (\<exists>out. main sample_config sample_session reversed = Inr out \<and>
      n_notaries out = sum_list (map (page_cards sample_config sample_session) [0..<page_nb sample_config + 1]))"
  using Crawl.main_succeeds [OF site_ok_sample valid_reversed] site_ok_sample valid_reversed by blast

section \<open>Witnesses of the export theorems\<close>

theorem main_no_records_witness:
  "crawl_pages sample_config empty_site_session in_order [0..<page_nb sample_config + 1] [] = Inr [] \<and>
   main sample_config empty_site_session in_order = Inl EmptyDataError"
  using Crawl.main_no_records [OF crawl_pages_empty_site] crawl_pages_empty_site by blast

section \<open>Witnesses of the event-loop theorems\<close>

lemma await_sample_run:
  "await_step\<^sup>*\<^sup>* (Awaiting [Inr ''a'', Inl ClientError] []) (Awaiting [Inl ClientError] [''a''])"
proof -
  have "await_step (Awaiting ([] @ Inr ''a'' # [Inl ClientError]) [])
      (Awaiting ([] @ [Inl ClientError]) ([] @ [''a'']))" by (rule await_ok)
  then have "await_step (Awaiting [Inr ''a'', Inl ClientError] []) (Awaiting [Inl ClientError] [''a''])"
    by simp
  then show ?thesis by (rule r_into_rtranclp)
qed

theorem await_reachable_inv_witness:
  "await_step\<^sup>*\<^sup>* (Awaiting [Inr ''a'', Inl ClientError] []) (Awaiting [Inl ClientError] [''a'']) \<and>
   loop_inv [Inr ''a'', Inl ClientError] (Awaiting [Inl ClientError] [''a''])"
  using EventLoop.await_reachable_inv [OF await_sample_run] await_sample_run by blast


end
